theory Spec2Isabelle
  imports Main "HOL-Library.List_Lexorder" "HOL-Library.Multiset"
begin


section \<open>Strings\<close>

text \<open>
  A Python \<^verbatim>\<open>str\<close> is a sequence of Unicode code points; it is modelled as a list of
  natural numbers. \<open>str\<close> turns an Isabelle string literal (ASCII) into that list.
  Case mapping (\<^verbatim>\<open>lower\<close>, \<^verbatim>\<open>upper\<close>, \<^verbatim>\<open>re.IGNORECASE\<close>), \<^verbatim>\<open>\d\<close>, \<^verbatim>\<open>\w\<close> and
  \<^verbatim>\<open>isdigit\<close> are modelled on the ASCII range: code points from 128 on are neither letters nor
  digits here. White space is the full set of \<^verbatim>\<open>str.isspace\<close>.
\<close>

type_synonym pystr = "nat list"

definition str :: "string \<Rightarrow> pystr" where
  "str s = map of_char s"

definition py_space :: "nat \<Rightarrow> bool" where
  "py_space c = (c \<in> set [9, 10, 11, 12, 13, 28, 29, 30, 31, 32, 133, 160, 5760, 8232, 8233, 8239, 8287, 12288]
                 \<or> (8192 \<le> c \<and> c \<le> 8202))"

definition lower_c :: "nat \<Rightarrow> nat" where
  "lower_c c = (if 65 \<le> c \<and> c \<le> 90 then c + 32 else c)"

definition upper_c :: "nat \<Rightarrow> nat" where
  "upper_c c = (if 97 \<le> c \<and> c \<le> 122 then c - 32 else c)"

definition lower :: "pystr \<Rightarrow> pystr" where
  "lower s = map lower_c s"

definition upper :: "pystr \<Rightarrow> pystr" where
  "upper s = map upper_c s"

definition lstrip_by :: "(nat \<Rightarrow> bool) \<Rightarrow> pystr \<Rightarrow> pystr" where
  "lstrip_by P s = dropWhile P s"

definition rstrip_by :: "(nat \<Rightarrow> bool) \<Rightarrow> pystr \<Rightarrow> pystr" where
  "rstrip_by P s = rev (dropWhile P (rev s))"

definition strip :: "pystr \<Rightarrow> pystr" where
  "strip s = lstrip_by py_space (rstrip_by py_space s)"

definition lstrip :: "pystr \<Rightarrow> pystr" where
  "lstrip s = lstrip_by py_space s"

definition strip_chars :: "pystr \<Rightarrow> pystr \<Rightarrow> pystr" where
  "strip_chars cs s = lstrip_by (\<lambda>c. c \<in> set cs) (rstrip_by (\<lambda>c. c \<in> set cs) s)"

definition rstrip_chars :: "pystr \<Rightarrow> pystr \<Rightarrow> pystr" where
  "rstrip_chars cs s = rstrip_by (\<lambda>c. c \<in> set cs) s"

definition startswith :: "pystr \<Rightarrow> pystr \<Rightarrow> bool" where
  "startswith s p = (take (length p) s = p)"

definition endswith :: "pystr \<Rightarrow> pystr \<Rightarrow> bool" where
  "endswith s p = (length p \<le> length s \<and> drop (length s - length p) s = p)"

fun contains :: "pystr \<Rightarrow> pystr \<Rightarrow> bool" where
  "contains sub [] = (sub = [])"
| "contains sub (c # cs) = (if startswith (c # cs) sub then True else contains sub cs)"

text \<open>\<^verbatim>\<open>s.replace(old, new)\<close>: all non-overlapping occurrences, left to right; an empty
  \<^verbatim>\<open>old\<close> matches before every code point and at the end.\<close>

fun replace_ne :: "pystr \<Rightarrow> pystr \<Rightarrow> pystr \<Rightarrow> pystr" where
  "replace_ne old new [] = []"
| "replace_ne old new (c # cs) =
     (if startswith (c # cs) old then new @ replace_ne old new (drop (length old - 1) cs)
      else c # replace_ne old new cs)"

definition replace :: "pystr \<Rightarrow> pystr \<Rightarrow> pystr \<Rightarrow> pystr" where
  "replace old new s =
     (if old = [] then new @ concat (map (\<lambda>c. c # new) s) else replace_ne old new s)"

text \<open>\<^verbatim>\<open>s.count(sub)\<close> for a non-empty \<^verbatim>\<open>sub\<close>.\<close>

fun count_sub :: "pystr \<Rightarrow> pystr \<Rightarrow> nat" where
  "count_sub sub [] = 0"
| "count_sub sub (c # cs) =
     (if startswith (c # cs) sub then Suc (count_sub sub (drop (length sub - 1) cs))
      else count_sub sub cs)"

text \<open>\<^verbatim>\<open>s.split(sep)\<close> for a non-empty separator: the pieces between the occurrences.\<close>

fun split_acc :: "pystr \<Rightarrow> pystr \<Rightarrow> pystr \<Rightarrow> pystr list" where
  "split_acc sep acc [] = [rev acc]"
| "split_acc sep acc (c # cs) =
     (if startswith (c # cs) sep then rev acc # split_acc sep [] (drop (length sep - 1) cs)
      else split_acc sep (c # acc) cs)"

definition split_on :: "pystr \<Rightarrow> pystr \<Rightarrow> pystr list" where
  "split_on sep s = split_acc sep [] s"

text \<open>\<^verbatim>\<open>s.split()\<close>: the maximal runs of non-space code points.\<close>

fun words_acc :: "pystr \<Rightarrow> pystr \<Rightarrow> pystr list" where
  "words_acc acc [] = (if acc = [] then [] else [rev acc])"
| "words_acc acc (c # cs) =
     (if py_space c then (if acc = [] then words_acc [] cs else rev acc # words_acc [] cs)
      else words_acc (c # acc) cs)"

definition split_ws :: "pystr \<Rightarrow> pystr list" where
  "split_ws s = words_acc [] s"

fun join :: "pystr \<Rightarrow> pystr list \<Rightarrow> pystr" where
  "join sep [] = []"
| "join sep [x] = x"
| "join sep (x # y # xs) = x @ sep @ join sep (y # xs)"

definition slice :: "pystr \<Rightarrow> nat \<Rightarrow> nat \<Rightarrow> pystr" where
  "slice s a b = take (b - a) (drop a s)"

definition isdigit :: "pystr \<Rightarrow> bool" where
  "isdigit s = (s \<noteq> [] \<and> (\<forall>c \<in> set s. 48 \<le> c \<and> c \<le> 57))"

text \<open>\<^verbatim>\<open>int(s)\<close>: surrounding white space, an optional sign, decimal digits with single
  underscores between them; \<open>None\<close> stands for \<^verbatim>\<open>ValueError\<close>.\<close>

fun digits_val :: "bool \<Rightarrow> int \<Rightarrow> pystr \<Rightarrow> int option" where
  "digits_val after_digit acc [] = (if after_digit then Some acc else None)"
| "digits_val after_digit acc (c # cs) =
     (if 48 \<le> c \<and> c \<le> 57 then digits_val True (10 * acc + int (c - 48)) cs
      else if c = 95 \<and> after_digit \<and> cs \<noteq> [] \<and> 48 \<le> hd cs \<and> hd cs \<le> 57 then digits_val False acc cs
      else None)"

definition py_int :: "pystr \<Rightarrow> int option" where
  "py_int s =
     (case strip s of
        [] \<Rightarrow> None
      | c # cs \<Rightarrow>
          if c = 45 then map_option uminus (digits_val False 0 cs)
          else if c = 43 then digits_val False 0 cs
          else digits_val False 0 (c # cs))"


section \<open>Regular expressions\<close>

text \<open>
  The patterns of \<^verbatim>\<open>bibpatterns.py\<close> and \<^verbatim>\<open>bibtools.py\<close> are written in the abstract syntax
  \<open>re\<close>; \<open>run\<close> is a backtracking matcher with the priorities of Python's \<^verbatim>\<open>re\<close> module:
  alternatives left to right, greedy repetition longest first, lazy repetition shortest first.
  The matcher works on a stack of pending frames, the subject string, the current index and
  the groups closed so far (most recent first). \<open>Rep g mn mx r\<close> is \<^verbatim>\<open>r{mn,mx}\<close>
  (greedy when \<open>g\<close>); \<open>Ahead\<close> is a lookahead and \<open>Behind\<close> a lookbehind of one
  code point, each with its polarity. No repeated sub-pattern of the program matches the empty
  string; an empty iteration ends the repetition.
\<close>

datatype gname = G1 | G2 | G3 | G4
  | G_author | G_year | G_extrayear | G_title | G_endmark | G_endmark1 | G_editor | G_ed
  | G_booktitle | G_journal | G_note | G_volume | G_number | G_address | G_publisher
  | G_newtitle | G_series | G_pages | G_volume_paren | G_number_paren | G_volume_sep
  | G_number_sep | G_volume_only | G_url

datatype re =
    Eps
  | AnyC
  | Cls "(nat \<times> nat) list"
  | NCls "(nat \<times> nat) list"
  | Lit pystr
  | Seq re re
  | Alt re re
  | Rep bool nat "nat option" re
  | Grp gname re
  | Bol
  | Eol
  | EndS
  | WordB
  | Ahead bool re
  | Behind bool "(nat \<times> nat) list"

datatype frame = R re | Close gname nat | Loop bool nat "nat option" re nat

type_synonym caps = "(gname \<times> nat \<times> nat) list"

definition cp :: "pystr \<Rightarrow> nat \<Rightarrow> nat option" where
  "cp s i = (if i < length s then Some (s ! i) else None)"

definition prev :: "pystr \<Rightarrow> nat \<Rightarrow> nat option" where
  "prev s i = (if i = 0 then None else cp s (i - 1))"

fun in_ranges :: "nat \<Rightarrow> (nat \<times> nat) list \<Rightarrow> bool" where
  "in_ranges c [] = False"
| "in_ranges c ((lo, hi) # rs) =
     (if lo \<le> c then (if c \<le> hi then True else in_ranges c rs) else in_ranges c rs)"

definition swapcase :: "nat \<Rightarrow> nat" where
  "swapcase c = (if 65 \<le> c \<and> c \<le> 90 then c + 32 else if 97 \<le> c \<and> c \<le> 122 then c - 32 else c)"

definition cls_match :: "bool \<Rightarrow> (nat \<times> nat) list \<Rightarrow> nat \<Rightarrow> bool" where
  "cls_match ic rs c =
     (if in_ranges c rs then True else if ic then in_ranges (swapcase c) rs else False)"

definition is_word :: "nat \<Rightarrow> bool" where
  "is_word c = in_ranges c [(48, 57), (65, 90), (95, 95), (97, 122)]"

definition word_opt :: "nat option \<Rightarrow> bool" where
  "word_opt p = (case p of None \<Rightarrow> False | Some c \<Rightarrow> is_word c)"

fun rsize :: "re \<Rightarrow> nat" where
  "rsize (Seq a b) = rsize a + rsize b + 2"
| "rsize (Alt a b) = rsize a + rsize b + 1"
| "rsize (Rep g mn mx r) = rsize r + 2"
| "rsize (Grp nm r) = rsize r + 2"
| "rsize (Ahead b r) = rsize r + 2"
| "rsize (Lit l) = 2 * length l"
| "rsize r = 0"

fun weight :: "nat \<Rightarrow> frame \<Rightarrow> nat" where
  "weight i (R r) = rsize r + 1"
| "weight i (Close nm i0) = 1"
| "weight i (Loop g mn mx r i0) = (if i0 < i then rsize r + 4 else 1)"

definition dec :: "nat option \<Rightarrow> nat option" where
  "dec mx = (case mx of None \<Rightarrow> None | Some j \<Rightarrow> Some (j - 1))"

function run :: "bool \<Rightarrow> pystr \<Rightarrow> frame list \<Rightarrow> nat \<Rightarrow> caps \<Rightarrow> (nat \<times> caps) option" where
  "run ic s [] i c = Some (i, c)"
| "run ic s (Close nm i0 # k) i c = run ic s k i ((nm, i0, i) # c)"
| "run ic s (Loop g mn mx r i0 # k) i c =
     (if i0 < i then run ic s (R (Rep g mn mx r) # k) i c
      else if mn = 0 then run ic s k i c else None)"
| "run ic s (R Eps # k) i c = run ic s k i c"
| "run ic s (R AnyC # k) i c =
     (case cp s i of None \<Rightarrow> None | Some x \<Rightarrow> if x = 10 then None else run ic s k (i + 1) c)"
| "run ic s (R (Cls rs) # k) i c =
     (case cp s i of None \<Rightarrow> None
      | Some x \<Rightarrow> if cls_match ic rs x then run ic s k (i + 1) c else None)"
| "run ic s (R (NCls rs) # k) i c =
     (case cp s i of None \<Rightarrow> None
      | Some x \<Rightarrow> if cls_match ic rs x then None else run ic s k (i + 1) c)"
| "run ic s (R (Lit l) # k) i c =
     (case l of [] \<Rightarrow> run ic s k i c
      | y # ys \<Rightarrow> run ic s (R (Cls [(y, y)]) # R (Lit ys) # k) i c)"
| "run ic s (R (Seq a b) # k) i c = run ic s (R a # R b # k) i c"
| "run ic s (R (Alt a b) # k) i c =
     (case run ic s (R a # k) i c of Some x \<Rightarrow> Some x | None \<Rightarrow> run ic s (R b # k) i c)"
| "run ic s (R (Rep g mn mx r) # k) i c =
     (if mx = Some 0 then run ic s k i c
      else if 0 < mn then run ic s (R r # Loop g (mn - 1) (dec mx) r i # k) i c
      else if g then
        (case run ic s (R r # Loop g 0 (dec mx) r i # k) i c of
           Some x \<Rightarrow> Some x
         | None \<Rightarrow> run ic s k i c)
      else
        (case run ic s k i c of
           Some x \<Rightarrow> Some x
         | None \<Rightarrow> run ic s (R r # Loop g 0 (dec mx) r i # k) i c))"
| "run ic s (R (Grp nm r) # k) i c = run ic s (R r # Close nm i # k) i c"
| "run ic s (R Bol # k) i c = (if i = 0 then run ic s k i c else None)"
| "run ic s (R Eol # k) i c =
     (if cp s i = None \<or> (cp s i = Some 10 \<and> cp s (i + 1) = None) then run ic s k i c else None)"
| "run ic s (R EndS # k) i c = (if cp s i = None then run ic s k i c else None)"
| "run ic s (R WordB # k) i c =
     (if word_opt (prev s i) \<noteq> word_opt (cp s i) then run ic s k i c else None)"
| "run ic s (R (Ahead pos r) # k) i c =
     (case run ic s [R r] i c of
        Some x \<Rightarrow> if pos then run ic s k i c else None
      | None \<Rightarrow> if pos then None else run ic s k i c)"
| "run ic s (R (Behind pos rs) # k) i c =
     (if (case prev s i of None \<Rightarrow> False | Some x \<Rightarrow> cls_match ic rs x) = pos
      then run ic s k i c else None)"
  by pat_completeness auto
termination
  by (relation "inv_image (less_than <*lex*> less_than)
        (\<lambda>(ic, s, k, i, c). (length s - i, sum_list (map (weight i) k)))")
     (auto simp: cp_def split: if_splits)

text \<open>A match: where it starts, where it ends, and its groups.\<close>

type_synonym mtch = "nat \<times> nat \<times> caps"

definition re_match :: "bool \<Rightarrow> re \<Rightarrow> pystr \<Rightarrow> mtch option" where
  "re_match ic r s = map_option (Pair 0) (run ic s [R r] 0 [])"

definition re_fullmatch :: "bool \<Rightarrow> re \<Rightarrow> pystr \<Rightarrow> mtch option" where
  "re_fullmatch ic r s = map_option (Pair 0) (run ic s [R r, R EndS] 0 [])"

function search_from :: "bool \<Rightarrow> re \<Rightarrow> pystr \<Rightarrow> nat \<Rightarrow> mtch option" where
  "search_from ic r s i =
     (case run ic s [R r] i [] of
        Some x \<Rightarrow> Some (i, x)
      | None \<Rightarrow> if i < length s then search_from ic r s (i + 1) else None)"
  by pat_completeness auto
termination
  by (relation "measure (\<lambda>(ic, r, s, i). length s - i)") auto

definition re_search :: "bool \<Rightarrow> re \<Rightarrow> pystr \<Rightarrow> mtch option" where
  "re_search ic r s = search_from ic r s 0"

text \<open>\<^verbatim>\<open>finditer\<close>: the non-overlapping matches from left to right. The scan goes on at the
  end of a match, or one code point further after an empty match.\<close>

function find_all :: "bool \<Rightarrow> re \<Rightarrow> pystr \<Rightarrow> nat \<Rightarrow> mtch list" where
  "find_all ic r s i =
     (case run ic s [R r] i [] of
        Some (e, c) \<Rightarrow>
          (i, e, c) # (if i < e \<and> e \<le> length s then find_all ic r s e
                       else if i < length s then find_all ic r s (i + 1) else [])
      | None \<Rightarrow> if i < length s then find_all ic r s (i + 1) else [])"
  by pat_completeness auto
termination
  by (relation "measure (\<lambda>(ic, r, s, i). length s - i)") auto

definition finditer :: "bool \<Rightarrow> re \<Rightarrow> pystr \<Rightarrow> mtch list" where
  "finditer ic r s = find_all ic r s 0"

definition mgroup :: "pystr \<Rightarrow> mtch \<Rightarrow> gname \<Rightarrow> pystr option" where
  "mgroup s m g = (case map_of (snd (snd m)) g of None \<Rightarrow> None | Some (a, b) \<Rightarrow> Some (slice s a b))"

definition group_str :: "pystr \<Rightarrow> mtch \<Rightarrow> gname \<Rightarrow> pystr" where
  "group_str s m g = (case mgroup s m g of None \<Rightarrow> [] | Some v \<Rightarrow> v)"

definition group0 :: "pystr \<Rightarrow> mtch \<Rightarrow> pystr" where
  "group0 s m = slice s (fst m) (fst (snd m))"

definition m_start :: "mtch \<Rightarrow> nat" where "m_start m = fst m"
definition m_end :: "mtch \<Rightarrow> nat" where "m_end m = fst (snd m)"

text \<open>\<^verbatim>\<open>re.sub\<close> with the replacement computed from the match, and \<^verbatim>\<open>re.split\<close> for a
  pattern without groups.\<close>

fun sub_build :: "pystr \<Rightarrow> (mtch \<Rightarrow> pystr) \<Rightarrow> nat \<Rightarrow> mtch list \<Rightarrow> pystr" where
  "sub_build s repl pos [] = drop pos s"
| "sub_build s repl pos (m # ms) = slice s pos (m_start m) @ repl m @ sub_build s repl (m_end m) ms"

definition re_sub :: "bool \<Rightarrow> re \<Rightarrow> (mtch \<Rightarrow> pystr) \<Rightarrow> pystr \<Rightarrow> pystr" where
  "re_sub ic r repl s = sub_build s repl 0 (finditer ic r s)"

fun split_build :: "pystr \<Rightarrow> nat \<Rightarrow> mtch list \<Rightarrow> pystr list" where
  "split_build s pos [] = [drop pos s]"
| "split_build s pos (m # ms) = slice s pos (m_start m) # split_build s (m_end m) ms"

definition re_split :: "bool \<Rightarrow> re \<Rightarrow> pystr \<Rightarrow> pystr list" where
  "re_split ic r s = split_build s 0 (finditer ic r s)"

primrec seqs :: "re list \<Rightarrow> re" where
  "seqs [] = Eps"
| "seqs (a # rs) = Seq a (seqs rs)"

fun alts :: "re list \<Rightarrow> re" where
  "alts [] = Eps"
| "alts [a] = a"
| "alts (a # b # rs) = Alt a (alts (b # rs))"

definition star :: "re \<Rightarrow> re" where "star r = Rep True 0 None r"
definition rplus :: "re \<Rightarrow> re" where "rplus r = Rep True 1 None r"
definition opt :: "re \<Rightarrow> re" where "opt r = Rep True 0 (Some 1) r"
definition lstar :: "re \<Rightarrow> re" where "lstar r = Rep False 0 None r"
definition lplus :: "re \<Rightarrow> re" where "lplus r = Rep False 1 None r"

definition chars :: "string \<Rightarrow> (nat \<times> nat) list" where
  "chars s = map (\<lambda>c. (of_char c, of_char c)) s"

text \<open>Character classes: \<^verbatim>\<open>\s\<close>, \<^verbatim>\<open>\d\<close>, \<^verbatim>\<open>\w\<close>, letters, and the dashes that the
  patterns name (hyphen-minus, en dash U+2013, em dash U+2014).\<close>

definition space_cls :: "(nat \<times> nat) list" where
  "space_cls = [(9, 13), (28, 32), (133, 133), (160, 160), (5760, 5760), (8192, 8202),
                (8232, 8233), (8239, 8239), (8287, 8287), (12288, 12288)]"
definition digit :: "(nat \<times> nat) list" where "digit = [(48, 57)]"
definition lower_az :: "(nat \<times> nat) list" where "lower_az = [(97, 122)]"
definition upper_az :: "(nat \<times> nat) list" where "upper_az = [(65, 90)]"
definition word_cls :: "(nat \<times> nat) list" where
  "word_cls = [(48, 57), (65, 90), (95, 95), (97, 122)]"
definition dashes :: "(nat \<times> nat) list" where
  "dashes = [(45, 45), (8211, 8211), (8212, 8212)]"

definition ws :: re where "ws = star (Cls space_cls)"
definition sp :: re where "sp = Lit (str '' '')"

section \<open>The patterns of bibpatterns.py\<close>

text \<open>
  The lower-case pattern fragments of \<^verbatim>\<open>bibpatterns.py\<close> carry the suffix \<open>_p\<close> here
  (\<^verbatim>\<open>author\<close> is \<open>author_p\<close>); the compiled patterns keep their names. A pattern compiled
  with \<^verbatim>\<open>re.IGNORECASE\<close> is used with the flag \<open>True\<close> at its call sites.
  \<^verbatim>\<open>PRESERVATIONPATTERN\<close> is built from the noun lists of \<^verbatim>\<open>bibnouns\<close>, which are not part
  of the sources at hand: it is a parameter of the functions that use it.
\<close>

definition camel_cls :: "(nat \<times> nat) list" where
  "camel_cls = upper_az @ lower_az @ digit @ [(45, 45), (39, 39)]"

definition CAMELCASE_RE :: re where
  "CAMELCASE_RE = Grp G1 (seqs [Cls upper_az, star (Cls camel_cls), Cls upper_az, rplus (Cls camel_cls)])"

definition PROCEEDINGS_RE :: re where
  "PROCEEDINGS_RE = seqs [WordB, Grp G1 (alts [Lit (str ''Proceedings''), Lit (str ''Workshop''),
     Lit (str ''Conference''), Lit (str ''Symposium'')]), WordB]"

definition PROCEEDINGS_LC_RE :: re where
  "PROCEEDINGS_LC_RE = seqs [WordB, Grp G1 (alts [Lit (str ''proceedings''), Lit (str ''workshop''),
     Lit (str ''conference''), Lit (str ''symposium'')]), WordB]"

definition PROCEEDINGS_FUZZY_RE :: re where
  "PROCEEDINGS_FUZZY_RE = Grp G1 (alts [Lit (str ''roceedings''), Lit (str ''orkshop''),
     Lit (str ''onference''), Lit (str ''ymposium'')])"

definition TITLEVOLUME_RE :: re where
  "TITLEVOLUME_RE = seqs [opt (Grp G1 (Lit (str '', ''))),
     Grp G2 (alts [seqs [Cls (chars ''Vv''), Lit (str ''olume'')],
                   seqs [Cls (chars ''Vv''), Lit (str ''ol''), opt AnyC],
                   Lit (str ''Band''),
                   seqs [Cls (chars ''Tt''), Lit (str ''ome'')]]),
     star sp, Grp G3 (rplus (Cls (digit @ chars ''IVXivx'')))]"

definition THESIS_RE :: re where
  "THESIS_RE = Grp G1 (alts [seqs [Lit (str ''thesis''), opt (Grp G2 (Lit (str ''es'')))],
     Lit (str ''dissertation''), Lit (str ''proquest'')])"

definition yyyy :: re where "yyyy = seqs [Cls (chars ''12''), Cls digit, Cls digit, Cls digit]"
definition mm :: re where "mm = seqs [opt (Cls (chars ''10'')), Cls digit]"
definition dd :: re where "dd = seqs [opt (Cls (chars ''0123'')), Cls digit]"
definition iso_date :: re where
  "iso_date = seqs [yyyy, Lit (str ''-''), mm, Lit (str ''-''), dd]"
definition euro_date :: re where
  "euro_date = seqs [dd, Lit (str ''.''), mm, Lit (str ''.''), yyyy]"

definition url_pattern :: re where
  "url_pattern = seqs [Lit (str ''http''), opt (Lit (str ''s'')), Lit (str ''://''), rplus (NCls space_cls)]"

definition URL_URLDATE_RE :: re where
  "URL_URLDATE_RE = seqs [url_pattern, sp, lstar AnyC, Grp G1 (Alt iso_date euro_date)]"

definition ISO_DATE_RE :: re where
  "ISO_DATE_RE = seqs [WordB, iso_date, WordB]"

definition URL_RE :: re where
  "URL_RE = Grp G1 (seqs [Lit (str ''http''), opt (Lit (str ''s'')), Lit (str ''://''),
     rplus (NCls (chars '' ()''))])"

definition DOMAIN_RE :: re where
  "DOMAIN_RE = seqs [Bol, Lit (str ''http''), opt (Lit (str ''s'')), Lit (str ''://''),
     Grp G1 (rplus (NCls (chars ''/'')))]"

definition AMP_RE :: re where
  "AMP_RE = seqs [Behind False [(92, 92)], Lit (str ''&'')]"

definition ARTICLE_ID_RE :: re where
  "ARTICLE_ID_RE = seqs [Bol,
     Rep True 1 (Some 3) (alts [Lit (str ''article''), seqs [Lit (str ''art''), opt (Lit (str ''.''))],
        seqs [Lit (str ''id''), opt (Lit (str ''.''))], Lit (str ''number''),
        seqs [Lit (str ''no''), opt (Lit (str ''.''))]]),
     star sp, Grp G1 (rplus (Cls (upper_az @ lower_az @ digit)))]"

definition TYPKEYFIELDS :: re where
  "TYPKEYFIELDS = seqs [Bol, ws, Grp G1 (rplus (NCls ((123, 123) # space_cls))), ws, Lit (str ''{''), ws,
     Grp G2 (rplus (NCls ((44, 44) # space_cls))), ws, Lit (str '',''), ws,
     Grp G3 (star (Alt AnyC (Lit [10]))), Lit (str ''}'')]"

definition MAINTITLE_RE :: re where
  "MAINTITLE_RE = seqs [Grp G1 (Cls (chars '':?!'')), rplus sp, Grp G2 (Cls (lower_az @ upper_az))]"

definition doi_cls :: "(nat \<times> nat) list" where
  "doi_cls = chars ''-._;()/:'' @ upper_az @ digit"

definition doi_pattern :: re where
  "doi_pattern = Grp G1 (seqs [Lit (str ''10.''), Rep True 4 (Some 9) (Cls digit), Lit (str ''/''),
     rplus (Cls doi_cls)])"

definition DOI_RE :: re where
  "DOI_RE = doi_pattern"

text \<open>The whitelist of trusted DOI sources: domain and pattern, searched with
  \<^verbatim>\<open>re.IGNORECASE\<close>.\<close>

definition DOI_WHITELIST_RE :: "(pystr \<times> re) list" where
  "DOI_WHITELIST_RE = [
     (str ''www.degruyter.com'',
        seqs [Lit (str ''/''), doi_pattern, opt (Alt (Lit (str ''/html'')) (Lit (str ''/pdf'')))]),
     (str ''academic.oup.com'', seqs [Lit (str ''/doi/''), doi_pattern]),
     (str ''www.tandfonline.com'',
        seqs [Lit (str ''/doi/''), opt (alts [Lit (str ''full''), Lit (str ''abs''), Lit (str ''pdf'')]),
              Lit (str ''/''), doi_pattern]),
     (str ''doi.org'', seqs [Lit (str ''doi.org/''), doi_pattern]),
     (str ''dx.doi.org'', seqs [Lit (str ''dx.doi.org/''), doi_pattern]),
     (str ''doi.acm.org'', seqs [Lit (str ''doi.acm.org/''), doi_pattern]),
     (str ''journals.sagepub.com'', seqs [Lit (str ''/doi/''), doi_pattern]),
     (str ''asa.scitation.org'', seqs [Lit (str ''/doi/''), doi_pattern]),
     (str ''doi.wiley.com'', seqs [Lit (str ''doi.wiley.com/''), doi_pattern]),
     (str ''link.springer.com'', seqs [Lit (str ''/''), doi_pattern]),
     (str ''jbe-platform.com'', seqs [Lit (str ''/''), doi_pattern]),
     (str ''pubs.asha.org'', seqs [Lit (str ''/doi/''), doi_pattern]),
     (str ''dx.plos.org'',
        seqs [Lit (str ''/''), Grp G1 (seqs [Lit (str ''10.1371/journal.pone.''), rplus (Cls digit)])]),
     (str ''frontiersin.org'',
        seqs [Lit (str ''/articles/''), doi_pattern, opt (Alt (Lit (str ''/full'')) (Lit (str ''/abstract'')))])]"

text \<open>In \<^verbatim>\<open>GENERIC_DOI_RE\<close> the DOI is mgroup 1 and, inside it, the mgroup of
  \<^verbatim>\<open>doi_pattern\<close> is mgroup 2.\<close>

definition GENERIC_DOI_RE :: re where
  "GENERIC_DOI_RE = seqs [Lit (str ''doi/''), lstar AnyC,
     Grp G1 (Grp G2 (seqs [Lit (str ''10.''), Rep True 4 (Some 9) (Cls digit), Lit (str ''/''),
        rplus (Cls doi_cls)])),
     opt (seqs [Cls (chars ''/.''), alts [Lit (str ''full''), Lit (str ''abstract''), Lit (str ''abs''),
        Lit (str ''html''), Lit (str ''pdf'')]]), Eol]"

definition HANDLE_RE :: re where
  "HANDLE_RE = Grp G1 (seqs [Rep True 4 (Some 5) (Cls digit), Lit (str ''.''),
     Rep True 4 (Some 5) (Cls digit), Lit (str ''/''), rplus (Cls doi_cls)])"

text \<open>The tables that normalise school, address and publisher. \<^verbatim>\<open>PUBLISHER_ADDRESS\<close> maps
  tuples of lower-case substrings to an address.\<close>

definition SCHOOL_FULL :: "(pystr \<times> pystr) list" where
  "SCHOOL_FULL = [
     (str ''{MIT}'', str ''{Massachusetts Institute of Technology}''),
     (str ''{Ohio State University}'', str ''{The Ohio State University}''),
     (str ''{UC Berkeley}'', str ''{University of California, Berkeley}''),
     (str ''{UCLA}'', str ''{University of California, Los Angeles}''),
     (str ''{University of Texas at Austin}'', str ''{The University of Texas at Austin}''),
     (str ''{University of Texas at Arlington}'', str ''{The University of Texas at Arlington}''),
     (str ''{University of Massachusetts Amherst}'', str ''{University of Massachusetts, Amherst}'')]"

definition SCHOOL_ADDRESS :: "(pystr \<times> pystr) list" where
  "SCHOOL_ADDRESS = [
     (str ''{Australian National University}'', str ''{Canberra}''),
     (str ''{Cornell University}'', str ''{Ithaca}''),
     (str ''{Harvard University}'', str ''{Cambridge}''),
     (str ''{Indiana University}'', str ''{Bloomington}''),
     (str ''{Leiden University}'', str ''{Leiden}''),
     (str ''{Massachusetts Institute of Technology}'', str ''{Cambridge}''),
     (str ''{Rice University}'', str ''{Houston}''),
     (str ''{Stanford University}'', str ''{Stanford}''),
     (str ''{The Ohio State University}'', str ''{Columbus}''),
     (str ''{The University of Texas at Arlington}'', str ''{Arlington}''),
     (str ''{The University of Texas at Austin}'', str ''{Austin}''),
     (str ''{Universidade Estadual de Campinas}'', str ''{Campinas}''),
     (str ''{University of California, Berkeley}'', str ''{Berkeley}''),
     (str ''{University of California, Los Angeles}'', str ''{Los Angeles}''),
     (str ''{University of Cambridge}'', str ''{Cambridge}''),
     (str ''{University of Chicago}'', str ''{Chicago}''),
     (str ''{University of Connecticut}'', str ''{Storrs}''),
     (str ''{University of Illinois at Urbana-Champaign}'', str ''{Urbana-Champaign}''),
     (str ''{University of Kansas}'', str ''{Lawrence}''),
     (str ''{University of Massachusetts, Amherst}'', str ''{Amherst}''),
     (str ''{University of Pennsylvania}'', str ''{Philadelphia}''),
     (str ''{University of Sydney}'', str ''{Sydney}''),
     (str ''{Yale University}'', str ''{New Haven}'')]"

definition PUBLISHER_ADDRESS :: "(pystr list \<times> pystr) list" where
  "PUBLISHER_ADDRESS = [
     ([str ''benjamins''], str ''{Amsterdam}''),
     ([str ''cambridge'', str ''cup''], str ''{Cambridge}''),
     ([str ''oxford'', str ''oup''], str ''{Oxford}''),
     ([str ''blackwell'', str ''routledge''], str ''{London}''),
     ([str ''gruyter'', str ''mouton''], str ''{Berlin}''),
     ([str ''wiley''], str ''{Hoboken}''),
     ([str ''brill''], str ''{Leiden}''),
     ([str ''lincom''], str ''{M'' @ [252] @ str ''nchen}''),
     ([str ''foris''], str ''{Dordrecht}''),
     ([str ''mit press''], str ''{Cambridge}'')]"

text \<open>In \<^verbatim>\<open>PUBLISHER_FULL\<close> the sequence \<^verbatim>\<open>\&\<close> of the Python literals is a backslash and
  an ampersand; code points beyond ASCII are written as numbers.\<close>

definition PUBLISHER_FULL :: "(pystr \<times> pystr) list" where
  "PUBLISHER_FULL = [
     (str ''{Ablex Publishing Co}'', str ''{Ablex}''),
     (str ''{Ablex Publishing Corporation}'', str ''{Ablex}''),
     (str ''{Association for Computational Linguistics (ACL)}'', str ''{Association for Computational Linguistics}''),
     (str ''{The Association for Computational Linguistics}'', str ''{Association for Computational Linguistics}''),
     (str ''{The Association for Computational Linguistics (ACL)}'', str ''{Association for Computational Linguistics}''),
     (str ''{ACL}'', str ''{Association for Computational Linguistics}''),
     (str ''{CUP}'', str ''{Cambridge University Press}''),
     (str ''{Chicago Linguistics Society}'', str ''{Chicago Linguistic Society}''),
     (str ''{CSLI}'', str ''{CSLI Publications}''),
     (str ''{de Gruyter}'', str ''{De Gruyter}''),
     (str ''{de Gruyter Mouton}'', str ''{De Gruyter Mouton}''),
     (str ''{Elsevier Science Ltd}'', str ''{Elsevier Science}''),
     (str ''{Elsevier Science Ltd.}'', str ''{Elsevier Science}''),
     (str ''{Elsevier B.V}'', str ''{Elsevier Science}''),
     (str ''{Elsevier Inc}'', str ''{Elsevier Science}''),
     (str ''{Foris Publications}'', str ''{Foris}''),
     (str ''{IEEE COMPUTER SOC}'', str ''{IEEE}''),
     (str ''{John Benjamins Publishing Company}'', str ''{John Benjamins}''),
     (str ''{Benjamins}'', str ''{John Benjamins}''),
     (str ''{J. Benjamins}'', str ''{John Benjamins}''),
     (str ''{John Wiley '' @ [92, 38] @ str '' Sons, Ltd}'', str ''{John Wiley '' @ [92, 38] @ str '' Sons''),
     (str ''{John Wiley '' @ [92, 38] @ str '' Sons Ltd}'', str ''{John Wiley '' @ [92, 38] @ str '' Sons''),
     (str ''{John Wiley and Sons, Ltd}'', str ''{John Wiley '' @ [92, 38] @ str '' Sons''),
     (str ''{John Wiley and Sons Ltd}'', str ''{John Wiley '' @ [92, 38] @ str '' Sons''),
     (str ''{John Wiley and Sons}'', str ''{John Wiley '' @ [92, 38] @ str '' Sons''),
     (str ''{Editions L'' @ [8217] @ str ''Harmattan}'', str ''{L'' @ [39] @ str ''Harmattan}''),
     (str ''{Editions L'' @ [39] @ str ''Harmattan}'', str ''{L'' @ [39] @ str ''Harmattan}''),
     (str ''{l'' @ [39] @ str ''Harmattan}'', str ''{L'' @ [39] @ str ''Harmattan}''),
     (str ''{LINCOM}'', str ''{Lincom Europa}''),
     (str ''{The MIT Press}'', str ''{MIT Press}''),
     (str ''{MIT press}'', str ''{MIT Press}''),
     (str ''{Multilingual matters}'', str ''{Multilingual Matters}''),
     (str ''{North Holland}'', str ''{North-Holland}''),
     (str ''{North-Holland Publishing Company}'', str ''{North-Holland}''),
     (str ''{OUP}'', str ''{Oxford University Press}''),
     (str ''{Pergamon}'', str ''{Pergamon Press}''),
     (str ''{Routeledge}'', str ''{Routledge}''),
     (str ''{R'' @ [252] @ str ''diger K'' @ [246] @ str ''ppe Verlag}'', str ''{R'' @ [252] @ str ''diger K'' @ [246] @ str ''ppe}''),
     (str ''{K'' @ [246] @ str ''ppe}'', str ''{R'' @ [252] @ str ''diger K'' @ [246] @ str ''ppe}''),
     (str ''{Sage Publications}'', str ''{SAGE}''),
     (str ''{SAGE Publications}'', str ''{SAGE}''),
     (str ''{Sage}'', str ''{SAGE}''),
     (str ''{Springer Verlag}'', str ''{Springer}''),
     (str ''{Springer Berlin Heidelberg}'', str ''{Springer}''),
     (str ''{Springer Netherlands}'', str ''{Springer}''),
     (str ''{University of Chicago Press}'', str ''{The University of Chicago Press}''),
     (str ''{Walter de Gruyter GmbH '' @ [92, 38] @ str '' Co. KG}'', str ''{Walter de Gruyter}''),
     (str ''{World Scientific Publishing}'', str ''{World Scientific}'')]"

subsection \<open>The grammars of parse_natural\<close>

definition punct3 :: re where "punct3 = star (Cls (chars ''., ''))"

definition author_p :: re where "author_p = Grp G_author (lstar AnyC)"
definition year_p :: re where
  "year_p = seqs [opt (Lit (str ''('')), star sp,
     Grp G_year (seqs [Cls (chars ''12''), Rep True 3 (Some 3) (Cls digit)]),
     Grp G_extrayear (opt (Cls lower_az)), star sp, opt (Lit (str '')''))]"
definition pgunit :: re where
  "pgunit = rplus (Cls (digit @ chars ''ivxlcIXVLC''))"
definition pages_p :: re where
  "pages_p = Grp G_pages (seqs [opt (Cls (upper_az @ lower_az)), pgunit,
      opt (seqs [star sp, rplus (Cls dashes), star sp, opt (Cls (upper_az @ lower_az)), pgunit])])"
definition title_p :: re where "title_p = Grp G_title (lstar AnyC)"
definition title_ne :: re where "title_ne = Grp G_title (lplus AnyC)"
definition title_g :: re where "title_g = Grp G_title (rplus AnyC)"
definition endmark_p :: re where "endmark_p = Grp G_endmark (Cls (chars ''.!?,''))"
definition endmark1_p :: re where "endmark1_p = Grp G_endmark1 (Cls (chars ''.!?,''))"
definition editor_p :: re where "editor_p = Grp G_editor (rplus AnyC)"
definition ed_p :: re where
  "ed_p = seqs [Lit (str ''(''), Cls (chars ''Ee''), Lit (str ''d''), opt (Lit (str ''s'')),
     opt (Lit (str ''.'')), Lit (str '')'')]"
definition ed_flag :: re where "ed_flag = opt (Grp G_ed ed_p)"
definition booktitle_p :: re where "booktitle_p = Grp G_booktitle (rplus AnyC)"
definition journal_p :: re where
  "journal_p = Grp G_journal (seqs [NCls lower_az, lplus AnyC])"
definition note_p :: re where "note_p = Grp G_note (star AnyC)"
definition mathesis :: re where
  "mathesis = seqs [opt (Lit (str ''('')),
     Grp G1 (alts [Lit (str ''MA''), Lit (str ''Master'' @ [39] @ str ''s''), Lit (str ''Masters''),
        Lit (str ''Master''), seqs [Lit (str ''M.''), opt sp, Lit (str ''A.'')]]),
     sp, Cls (chars ''Tt''), Lit (str ''hesis''), opt (Lit (str '')''))]"
definition phdthesis :: re where
  "phdthesis = seqs [opt (Lit (str ''('')),
     opt (Grp G1 (alts [seqs [Cls (chars ''Dd''), Lit (str ''octoral'')], Lit (str ''PhD''),
        Lit (str ''Ph.D.'')])),
     opt sp,
     Grp G2 (Alt (seqs [Cls (chars ''Tt''), Lit (str ''hesis'')])
                 (seqs [Cls (chars ''Dd''), Lit (str ''issertation'')])),
     opt (Lit (str '')''))]"
definition pubaddr :: re where
  "pubaddr = seqs [Grp G_address (rplus AnyC), star sp, Lit (str '':''), Ahead False (Lit (str ''/'')),
     star sp, Grp G_publisher (seqs [NCls (chars '':''), opt (Lit (str ''.'')), rplus (NCls (chars ''.''))])]"
definition pubaddrng :: re where
  "pubaddrng = seqs [
     opt (seqs [Grp G_address (lplus AnyC), star sp, Lit (str '':''),
                Ahead False (alts [Lit (str ''//''), Lit (str ''doi:''), Lit (str ''handle:'')]), star sp]),
     Grp G_publisher (rplus AnyC)]"
definition pword :: re where
  "pword = seqs [alts [seqs [Lit (str ''pp''), opt (Lit (str ''.''))],
                       seqs [Lit (str ''p''), opt (Lit (str ''.''))],
                       Lit (str ''pages''),
                       seqs [Lit (str ''Page''), opt (Cls (chars ''s''))]], ws]"
definition roman :: re where "roman = rplus (Cls (chars ''ivxlcdmIVXLCDM''))"
definition arabic :: re where
  "arabic = seqs [Rep True 0 (Some 2) (Cls (upper_az @ lower_az)), rplus (Cls digit)]"
definition joint :: re where
  "joint = seqs [Alt arabic roman, opt (Alt (seqs [Cls (dashes @ chars ''/''), arabic]) roman)]"
definition volumenumber :: re where
  "volumenumber = alts [
     seqs [Grp G_volume_paren joint, star sp, Lit (str ''(''), Grp G_number_paren joint, Lit (str '')'')],
     seqs [Grp G_volume_sep joint, rplus (Cls (chars '' ,:;'')),
           opt (alts [Lit (str ''no.''), Lit (str ''number''), Lit (str ''num.''), Lit (str ''#'')]),
           star sp, Grp G_number_sep joint],
     Grp G_volume_only joint]"

definition BOOK :: re where
  "BOOK = seqs [author_p, punct3, sp, ed_flag, punct3, year_p, punct3, title_g]"

definition ARTICLE :: re where
  "ARTICLE = seqs [author_p, punct3, year_p, punct3, title_ne, endmark_p,
     rplus sp, journal_p, opt (Cls (chars ''.,'')), sp, volumenumber,
     opt (Alt (seqs [star sp, Cls (chars ''.:,''), star sp]) (rplus sp)),
     opt pages_p, Lit (str ''.''), star sp, note_p]"

definition INCOLLECTION :: re where
  "INCOLLECTION = seqs [author_p, punct3, year_p, punct3, title_p, endmark_p,
     Lit (str '' In''), opt (Lit (str '':'')), sp, editor_p, sp, ed_p, opt (Cls (chars ''.,'')), sp,
     booktitle_p, endmark1_p, sp, opt (Lit (str ''('')), pages_p, opt (Lit (str '')'')),
     Lit (str ''.''), rplus sp, pubaddrng]"

definition INCOLLECTIONPARENS :: re where
  "INCOLLECTIONPARENS = seqs [author_p, punct3, year_p, punct3, title_p, endmark_p,
     Lit (str '' In''), opt (Lit (str '':'')), sp, editor_p, sp, ed_p, opt (Cls (chars ''.,'')), sp,
     booktitle_p, opt (Cls (chars ''.,'')), Lit (str '' (''), opt pword, pages_p, Lit (str '').''),
     rplus sp, pubaddrng]"

definition INCOLLECTIONMISSING :: re where
  "INCOLLECTIONMISSING = seqs [author_p, punct3, year_p, punct3, title_p, endmark_p,
     star sp, Lit (str ''In''), opt (Lit (str '':'')), star sp, editor_p, star sp, ed_p,
     opt (Cls (chars ''.,'')), sp, booktitle_p]"

definition MASTERSTHESIS :: re where
  "MASTERSTHESIS = seqs [author_p, punct3, year_p, punct3, title_p, endmark_p,
     rplus sp, pubaddrng, Lit (str ''.''), star sp, mathesis, note_p]"

definition PHDTHESIS :: re where
  "PHDTHESIS = seqs [author_p, punct3, year_p, punct3, title_p, endmark_p,
     rplus sp, pubaddrng, Lit (str ''.''), star sp, phdthesis, note_p]"

definition MISC :: re where
  "MISC = seqs [author_p, punct3, year_p, punct3, title_g, endmark_p, star sp, note_p]"

definition EDITOR :: re where
  "EDITOR = seqs [year_p, star AnyC, ed_p]"

definition PUBADDR :: re where
  "PUBADDR = pubaddr"

section \<open>Records and helper functions of bibtools.py\<close>

text \<open>
  A Python dictionary with string keys is an association list with distinct keys in insertion
  order: assigning to a present key keeps its place, a new key goes to the end.
\<close>

type_synonym 'v dict = "(pystr \<times> 'v) list"

definition dict_get :: "'v dict \<Rightarrow> pystr \<Rightarrow> 'v option" where
  "dict_get d k = map_of d k"

fun dict_set :: "'v dict \<Rightarrow> pystr \<Rightarrow> 'v \<Rightarrow> 'v dict" where
  "dict_set [] k v = [(k, v)]"
| "dict_set (p # ps) k v = (if fst p = k then (k, v) # ps else p # dict_set ps k v)"

definition dict_del :: "'v dict \<Rightarrow> pystr \<Rightarrow> 'v dict" where
  "dict_del d k = filter (\<lambda>p. fst p \<noteq> k) d"

definition dict_has :: "'v dict \<Rightarrow> pystr \<Rightarrow> bool" where
  "dict_has d k = (dict_get d k \<noteq> None)"

text \<open>\<^verbatim>\<open>d.update(e)\<close>\<close>

definition dict_update :: "'v dict \<Rightarrow> 'v dict \<Rightarrow> 'v dict" where
  "dict_update d e = foldl (\<lambda>acc p. dict_set acc (fst p) (snd p)) d e"

text \<open>The truth value of \<^verbatim>\<open>d.get(k)\<close> for string values: present and not empty.\<close>

definition truthy :: "pystr option \<Rightarrow> bool" where
  "truthy v = (case v of None \<Rightarrow> False | Some s \<Rightarrow> s \<noteq> [])"

datatype error = TypeError

text \<open>
  The state of a \<^verbatim>\<open>Record\<close>. \<open>key\<close> is \<open>None\<close> for Python's \<^verbatim>\<open>None\<close>; \<open>inkeysd\<close> holds
  the keys of the dictionary of that name. The attribute \<^verbatim>\<open>typ\<close> is the field \<open>rtyp\<close> and \<^verbatim>\<open>fields\<close> is \<open>flds\<close>. The attributes \<^verbatim>\<open>typ\<close>, \<^verbatim>\<open>key\<close> and \<^verbatim>\<open>fields\<close>
  that Python leaves unset on a failed parse are only read on records whose parse succeeded.
  \<^verbatim>\<open>reporting\<close> and \<^verbatim>\<open>report()\<close> only print and are left out.
\<close>

record rec =
  raw_entry :: pystr
  parsing_failed :: bool
  errors :: "pystr list"
  restrict :: bool
  inkeysd :: "pystr list"
  rtyp :: pystr
  key :: "pystr option"
  flds :: "pystr dict"

definition fget :: "rec \<Rightarrow> pystr \<Rightarrow> pystr option" where
  "fget r k = dict_get (flds r) k"

definition fset :: "rec \<Rightarrow> pystr \<Rightarrow> pystr \<Rightarrow> rec" where
  "fset r k v = r\<lparr>flds := dict_set (flds r) k v\<rparr>"

definition fdel :: "rec \<Rightarrow> pystr \<Rightarrow> rec" where
  "fdel r k = r\<lparr>flds := dict_del (flds r) k\<rparr>"

definition fhas :: "rec \<Rightarrow> pystr \<Rightarrow> bool" where
  "fhas r k = dict_has (flds r) k"

definition err :: "rec \<Rightarrow> pystr \<Rightarrow> rec" where
  "err r e = r\<lparr>errors := errors r @ [e]\<rparr>"

definition excludefields :: "pystr list" where
  "excludefields = [str ''abstract'', str ''language'', str ''date-added'', str ''date-modified'',
     str ''rating'', str ''keywords'', str ''issn'', str ''timestamp'', str ''owner'', str ''optannote'',
     str ''optkey'', str ''optmonth'', str ''optnumber'', str ''url_checked'', str ''optaddress'',
     str ''eprinttype'', str ''bdsk-file-1'', str ''bdsk-file-2'', str ''bdsk-file-3'',
     str ''bdsk-url-1'', str ''bdsk-url-2'', str ''bdsk-url-3'']"

definition name_fields :: "pystr list" where
  "name_fields = [str ''author'', str ''editor'', str ''bookauthor'', str ''translator'']"

definition trim_braces :: "pystr \<Rightarrow> pystr" where
  "trim_braces s = (if startswith s (str ''{'') \<and> endswith s (str ''}'') then butlast (tl s) else s)"

definition add_braces :: "pystr \<Rightarrow> pystr" where
  "add_braces s = str ''{'' @ s @ str ''}''"

definition clean_and_brace_natural :: "(pystr option) dict \<Rightarrow> pystr dict" where
  "clean_and_brace_natural d =
     concat (map (\<lambda>(k, v). case v of None \<Rightarrow> []
                   | Some s \<Rightarrow> if s = [] then []
                       else (let cleaned = join (str '' '') (split_ws (strip s))
                             in if cleaned = [] then [] else [(k, add_braces cleaned)])) d)"

definition is_real_value :: "pystr option \<Rightarrow> bool" where
  "is_real_value x =
     (case x of None \<Rightarrow> False
      | Some s \<Rightarrow> if s = [] then False
                  else if s = str ''{}'' then False
                  else if startswith s (str ''{'' @ [92] @ str ''biberror{'') then False
                  else True)"

definition extract_url_re :: re where
  "extract_url_re = seqs [Grp G1 (seqs [Lit (str ''http''), opt (Lit (str ''s'')), Lit (str ''://''),
     rplus (NCls (chars '' ''))]), opt (Lit (str ''.'')), Eol]"

definition extract_url :: "pystr \<Rightarrow> pystr \<times> pystr option" where
  "extract_url tail =
     (case re_search False extract_url_re tail of
        Some m \<Rightarrow> (rstrip_chars (str '' .,'') (take (m_start m) tail), mgroup tail m G1)
      | None \<Rightarrow> (tail, None))"

definition extract_doi_re :: re where
  "extract_doi_re = seqs [
     opt (seqs [Lit (str ''doi''), Alt (Lit (str '':'')) (Lit (str '' '')), ws]),
     Grp G1 (seqs [Lit (str ''10.''), Rep True 4 (Some 9) (Cls digit), Lit (str ''/''),
        rplus (Cls (chars ''-._;()/:'' @ upper_az @ lower_az @ digit))]),
     opt (Lit (str ''.'')), Eol]"

definition extract_doi :: "pystr \<Rightarrow> pystr \<times> pystr option" where
  "extract_doi tail =
     (case re_search True extract_doi_re tail of
        Some m \<Rightarrow> (rstrip_chars (str '' .,'') (take (m_start m) tail), mgroup tail m G1)
      | None \<Rightarrow> (tail, None))"

definition extract_pubaddr_re :: re where
  "extract_pubaddr_re = seqs [Bol, Grp G1 (lplus AnyC), Grp G2 (Cls (chars ''.!?'')), sp,
     Grp G3 (lplus (NCls (chars '':''))), Lit (str '': ''), Grp G4 (lplus (NCls (chars '':''))),
     opt (Lit (str ''.'')), Eol]"

definition extract_pubaddr :: "pystr \<Rightarrow> pystr \<times> pystr dict" where
  "extract_pubaddr tail =
     (case re_search False extract_pubaddr_re tail of
        Some m \<Rightarrow>
          (let cleaned_tail = group_str tail m G1;
               endmark = group_str tail m G2;
               cleaned_tail = (if contains endmark (str ''!?'') then cleaned_tail @ endmark else cleaned_tail)
           in (strip cleaned_tail,
               [(str ''address'', strip (group_str tail m G3)),
                (str ''publisher'', strip (group_str tail m G4))]))
      | None \<Rightarrow> (tail, []))"

definition extract_seriesnumber_re :: re where
  "extract_seriesnumber_re = seqs [Bol, Grp G_newtitle (lstar AnyC), ws, Lit (str ''(''),
     Grp G_series (lplus AnyC), rplus (Cls space_cls),
     Grp G_number (rplus (Cls (chars ''-.'' @ digit @ chars ''/''))), Lit (str '')''), ws, Eol]"

definition extract_seriesnumber :: "pystr \<Rightarrow> pystr \<times> (pystr dict) option" where
  "extract_seriesnumber tail =
     (case re_search False extract_seriesnumber_re tail of
        Some m \<Rightarrow>
          (strip_chars (str '' .'') (group_str tail m G_newtitle),
           Some [(str ''series'', strip (group_str tail m G_series)),
                 (str ''number'', strip (group_str tail m G_number))])
      | None \<Rightarrow> (tail, None))"

definition pages_from_note_re :: re where
  "pages_from_note_re = seqs [Bol, star sp, pages_p, star (Cls (chars '' .,;:''))]"

definition extract_pages_from_note :: "pystr option \<Rightarrow> pystr option \<times> pystr option" where
  "extract_pages_from_note note =
     (if \<not> truthy note then (None, note)
      else (case re_match False pages_from_note_re (the note) of
              Some m \<Rightarrow> (Some (strip (group_str (the note) m G_pages)),
                         Some (lstrip (drop (m_end m) (the note))))
            | None \<Rightarrow> (None, note)))"

definition clean_booktitle_re :: re where
  "clean_booktitle_re = seqs [opt (Cls (chars ''.,'')), ws, opt (Lit (str ''('')), WordB,
     Grp G1 (Alt (seqs [Lit (str ''pp''), opt (Lit (str ''.''))]) (Lit (str ''p.''))), WordB,
     star AnyC, Eol]"

definition clean_booktitle :: "pystr \<Rightarrow> pystr" where
  "clean_booktitle booktitle = strip (re_sub False clean_booktitle_re (\<lambda>m. []) booktitle)"

text \<open>\<^verbatim>\<open>get_hyphen(None)\<close> raises \<^verbatim>\<open>TypeError\<close>: \<^verbatim>\<open>h in value\<close> needs a string.\<close>

definition get_hyphen :: "pystr option \<Rightarrow> error + pystr option" where
  "get_hyphen v =
     (case v of None \<Rightarrow> Inl TypeError
      | Some s \<Rightarrow> Inr (if 8211 \<in> set s then Some [8211]
                        else if 8212 \<in> set s then Some [8212]
                        else if 45 \<in> set s then Some [45] else None))"

definition is_joint_issue :: "pystr \<Rightarrow> pystr \<Rightarrow> bool" where
  "is_joint_issue v hyphen =
     (case split_on hyphen v of
        [a, b] \<Rightarrow> (case (py_int (strip a), py_int (strip b)) of
                     (Some first, Some second) \<Rightarrow> 0 < second - first \<and> second - first \<le> 3
                   | _ \<Rightarrow> False)
      | _ \<Rightarrow> False)"

section \<open>Parsing\<close>

subsection \<open>parse_bibtex\<close>

definition trailing_comma_re :: re where
  "trailing_comma_re = seqs [ws, Lit (str '',''), ws, Lit (str ''}''), Eol]"

definition line_split_re :: re where
  "line_split_re = seqs [Behind True [(125, 125)], star (Cls [(32, 32), (9, 9)]), Lit (str '',''),
     star (Cls [(32, 32), (9, 9)]), Lit [10], ws]"

definition spaces_re :: re where
  "spaces_re = rplus (Cls space_cls)"

definition braced_re :: re where
  "braced_re = seqs [Bol, ws, Grp G1 (rplus (Cls word_cls)), ws, Lit (str ''=''), ws, Lit (str ''{''), ws,
     Grp G2 (lstar AnyC), ws, Lit (str ''}''), ws, opt (Lit (str '','')), ws, Eol]"

definition quoted_re :: re where
  "quoted_re = seqs [Bol, ws, Grp G1 (rplus (Cls word_cls)), ws, Lit (str ''=''), ws, Lit [34], ws,
     Grp G2 (lstar (NCls [(34, 34)])), ws, Lit [34], ws, opt (Lit (str '','')), ws,
     Grp G3 (star AnyC), Eol]"

definition unbraced_re :: re where
  "unbraced_re = seqs [Bol, ws, Grp G1 (rplus (Cls word_cls)), ws, Lit (str ''=''), ws,
     Grp G2 (star (NCls ((34, 34) # chars '',{}''))), ws, opt (Lit (str '','')), ws,
     Grp G3 (star AnyC), Eol]"

text \<open>
  The \<^verbatim>\<open>while line:\<close> loop over one line. A braced value ends the line; after a quoted or a
  bare value the loop goes on with the remainder. The remainder is a proper suffix of the line,
  because the field name before it is not empty; the comparison of the lengths, which Python
  does not make, is what the termination proof uses.
\<close>

function parse_line :: "pystr \<Rightarrow> pystr dict \<Rightarrow> pystr dict" where
  "parse_line line fs =
     (if line = [] then fs
      else case re_match False braced_re line of
        Some m \<Rightarrow>
          (let field = group_str line m G1; v = group_str line m G2
           in if v = [] then fs else dict_set fs (lower field) (add_braces v))
      | None \<Rightarrow>
       (case re_match False quoted_re line of
          Some m \<Rightarrow>
            (let field = lower (group_str line m G1); v = group_str line m G2;
                 remainder = group_str line m G3;
                 fs' = (if v \<noteq> [] then dict_set fs field (add_braces v) else fs)
             in if remainder \<noteq> [] \<and> length remainder < length line then parse_line remainder fs'
                else fs')
        | None \<Rightarrow>
         (case re_match False unbraced_re line of
            Some m \<Rightarrow>
              (let field = lower (group_str line m G1); v = group_str line m G2;
                   remainder = group_str line m G3;
                   fs' = (if v \<noteq> [] then dict_set fs field v else fs)
               in if remainder \<noteq> [] \<and> length remainder < length line then parse_line remainder fs'
                  else fs')
          | None \<Rightarrow> fs)))"
  by pat_completeness auto
termination
  by (relation "measure (\<lambda>(line, fs). length line)") auto

definition bibtex_lines :: "pystr \<Rightarrow> pystr list" where
  "bibtex_lines remainder =
     map (\<lambda>line. re_sub False spaces_re (\<lambda>m. str '' '') (strip line))
       (re_split False line_split_re (re_sub False trailing_comma_re (\<lambda>m. str ''}'') remainder))"

text \<open>
  \<open>parse_bibtex\<close> threads the module-level dictionary \<^verbatim>\<open>keys\<close> (the keys seen so far).
  The record it starts from is the one \<^verbatim>\<open>__init__\<close> has set up.
\<close>

definition parse_bibtex :: "pystr list \<Rightarrow> rec \<Rightarrow> pystr \<Rightarrow> rec \<times> pystr list" where
  "parse_bibtex keys r s =
     (case re_match False TYPKEYFIELDS s of
        None \<Rightarrow> (r\<lparr>parsing_failed := True\<rparr>, keys)
      | Some m \<Rightarrow>
          (let r1 = r\<lparr>rtyp := lower (group_str s m G1), key := Some (group_str s m G2)\<rparr>;
               lines = bibtex_lines (strip (group_str s m G3))
           in if \<not> (\<exists>l \<in> set lines. l \<noteq> [])
              then (err r1 (str ''No valid field/value lines found'')\<lparr>parsing_failed := True\<rparr>, keys)
              else
                (let fs = foldl (\<lambda>acc line. parse_line line acc) [] lines;
                     r2 = r1\<lparr>flds := fs\<rparr>;
                     r3 = (if fs = []
                           then err r2 (str ''No fields parsed from BibTeX entry'')\<lparr>parsing_failed := True\<rparr>
                           else r2);
                     k = group_str s m G2;
                     r4 = (if k \<in> set keys then err r3 (str ''duplicate key '' @ k) else r3)
                 in (r4, if k \<in> set keys then keys else keys @ [k]))))"

subsection \<open>parse_natural\<close>

text \<open>
  The dictionary \<^verbatim>\<open>d\<close> of \<^verbatim>\<open>parse_natural\<close> holds strings or \<^verbatim>\<open>None\<close>. Each branch of the
  \<^verbatim>\<open>if/elif\<close> chain is a function from the match to the entry type and \<^verbatim>\<open>d\<close>.
\<close>

type_synonym ndict = "(pystr option) dict"

definition first_piece :: "pystr list \<Rightarrow> pystr" where
  "first_piece ps = (case ps of [] \<Rightarrow> [] | p # _ \<Rightarrow> p)"

definition last_piece :: "pystr list \<Rightarrow> pystr" where
  "last_piece ps = (case ps of [] \<Rightarrow> [] | _ \<Rightarrow> last ps)"

definition or_else :: "pystr option \<Rightarrow> pystr option \<Rightarrow> pystr option" where
  "or_else a b = (if truthy a then a else b)"

definition some_dict :: "pystr dict \<Rightarrow> ndict" where
  "some_dict e = map (\<lambda>(k, v). (k, Some v)) e"

definition nonblank :: "pystr \<Rightarrow> pystr option" where
  "nonblank tail = (if strip tail \<noteq> [] then Some tail else None)"

definition thesis_branch :: "pystr \<Rightarrow> mtch \<Rightarrow> ndict" where
  "thesis_branch s m =
     [(str ''author'', mgroup s m G_author), (str ''title'', mgroup s m G_title),
      (str ''endmark'', mgroup s m G_endmark), (str ''year'', mgroup s m G_year),
      (str ''extrayear'', mgroup s m G_extrayear), (str ''address'', mgroup s m G_address),
      (str ''school'', mgroup s m G_publisher), (str ''note'', mgroup s m G_note)]"

text \<open>The tail of the publisher: a URL, then a DOI, are cut off its end.\<close>

definition url_doi_tail :: "ndict \<Rightarrow> pystr \<Rightarrow> ndict \<times> pystr" where
  "url_doi_tail d tail =
     (let (tail1, url) = extract_url tail;
          d1 = (if truthy url then dict_set d (str ''url'') url else d);
          (tail2, doi) = extract_doi tail1;
          d2 = (if truthy doi then dict_set d1 (str ''doi'') doi else d1)
      in (d2, tail2))"

definition incollection_branch :: "bool \<Rightarrow> pystr \<Rightarrow> mtch \<Rightarrow> ndict" where
  "incollection_branch with_endmark1 s m =
     (let d = [(str ''author'', mgroup s m G_author), (str ''editor'', mgroup s m G_editor),
               (str ''year'', mgroup s m G_year), (str ''extrayear'', mgroup s m G_extrayear),
               (str ''title'', mgroup s m G_title), (str ''endmark'', mgroup s m G_endmark),
               (str ''booktitle'', Some (clean_booktitle (group_str s m G_booktitle)))]
              @ (if with_endmark1 then [(str ''endmark1'', mgroup s m G_endmark1)] else [])
              @ [(str ''pages'', mgroup s m G_pages), (str ''address'', mgroup s m G_address),
                 (str ''publisher'', mgroup s m G_publisher)];
          (d1, tail) = url_doi_tail d (group_str s m G_publisher)
      in dict_set d1 (str ''publisher'')
           (if strip tail \<noteq> [] then Some (rstrip_chars (str '' .'') tail) else None))"

definition incollectionmissing_branch :: "pystr \<Rightarrow> mtch \<Rightarrow> ndict" where
  "incollectionmissing_branch s m =
     (let d = [(str ''author'', mgroup s m G_author), (str ''editor'', mgroup s m G_editor),
               (str ''year'', mgroup s m G_year), (str ''extrayear'', mgroup s m G_extrayear),
               (str ''title'', mgroup s m G_title), (str ''endmark'', mgroup s m G_endmark),
               (str ''booktitle'', mgroup s m G_booktitle)];
          (d1, tail) = url_doi_tail d (group_str s m G_booktitle);
          (tail1, pubaddr) = extract_pubaddr tail;
          d2 = dict_update d1 (some_dict pubaddr)
      in dict_set d2 (str ''booktitle'') (nonblank tail1))"

text \<open>The article branch raises \<^verbatim>\<open>TypeError\<close> in \<^verbatim>\<open>get_hyphen(number)\<close> when the match has
  neither pages nor a number.\<close>

definition article_branch :: "pystr \<Rightarrow> mtch \<Rightarrow> error + ndict" where
  "article_branch s m =
     (let d = [(str ''author'', mgroup s m G_author), (str ''year'', mgroup s m G_year),
               (str ''extrayear'', mgroup s m G_extrayear), (str ''title'', mgroup s m G_title),
               (str ''endmark'', mgroup s m G_endmark), (str ''journal'', mgroup s m G_journal)];
          volume = or_else (mgroup s m G_volume_paren) (or_else (mgroup s m G_volume_sep) (mgroup s m G_volume_only));
          number = or_else (mgroup s m G_number_paren) (mgroup s m G_number_sep);
          pages = mgroup s m G_pages;
          note = mgroup s m G_note;
          d1 = dict_set d (str ''volume'') volume;
          d2 = (if truthy number then dict_set d1 (str ''number'') number else d1)
      in if truthy pages then Inr (dict_set (dict_set d2 (str ''pages'') pages) (str ''note'') note)
         else
           (case get_hyphen number of
              Inl e \<Rightarrow> Inl e
            | Inr None \<Rightarrow> Inr (dict_set d2 (str ''note'') note)
            | Inr (Some hyphen) \<Rightarrow>
                (let (extracted_pages, cleaned_note) = extract_pages_from_note note;
                     is_joint = is_joint_issue (the number) hyphen
                 in if is_joint \<and> truthy extracted_pages then
                      Inr (dict_set (dict_set (dict_set d2 (str ''number'') number)
                             (str ''pages'') extracted_pages) (str ''note'') cleaned_note)
                    else if is_joint \<and> \<not> truthy extracted_pages then
                      Inr (dict_set (dict_set (dict_set d2 (str ''pages'') number)
                             (str ''number'') None) (str ''note'') note)
                    else if \<not> is_joint \<and> truthy extracted_pages then
                      Inr (dict_set (dict_set d2 (str ''pages'')
                             (Some (the number @ str '', '' @ the extracted_pages)))
                             (str ''note'') cleaned_note)
                    else
                      Inr (dict_set (dict_set (dict_set d2 (str ''pages'') number)
                             (str ''number'') None) (str ''note'') note))))"

definition book_branch :: "pystr \<Rightarrow> mtch \<Rightarrow> bool \<Rightarrow> ndict" where
  "book_branch s m has_pubaddr =
     (let editor_flag = truthy (mgroup s m G_ed);
          d = [(str ''author'', mgroup s m G_author)];
          d1 = (if editor_flag
                then dict_set (dict_set d (str ''editor'') (mgroup s m G_author)) (str ''author'') None
                else d);
          d2 = d1 @ [(str ''year'', mgroup s m G_year), (str ''extrayear'', mgroup s m G_extrayear),
                     (str ''title'', mgroup s m G_title)];
          (d3, tail) = url_doi_tail d2 (group_str s m G_title);
          (tail1, pubaddr) = (if has_pubaddr then extract_pubaddr tail else (tail, []));
          d4 = dict_update d3 (some_dict pubaddr);
          (tail2, seriesnumber) = extract_seriesnumber tail1;
          d5 = (case seriesnumber of None \<Rightarrow> d4 | Some sn \<Rightarrow> dict_update d4 (some_dict sn))
      in dict_set d5 (str ''title'') (nonblank tail2))"

definition misc_branch :: "pystr \<Rightarrow> mtch \<Rightarrow> ndict" where
  "misc_branch s m =
     [(str ''author'', mgroup s m G_author), (str ''year'', mgroup s m G_year),
      (str ''extrayear'', mgroup s m G_extrayear), (str ''title'', mgroup s m G_title),
      (str ''endmark'', mgroup s m G_endmark), (str ''note'', mgroup s m G_note)]"

text \<open>The \<^verbatim>\<open>if/elif\<close> chain: the entry type and \<^verbatim>\<open>d\<close>. When \<^verbatim>\<open>BOOK\<close> matches without an
  editor flag and without an address, and when no grammar matches at all, the type stays
  \<^verbatim>\<open>misc\<close> and \<^verbatim>\<open>d\<close> stays empty.\<close>

definition classify :: "pystr \<Rightarrow> error + (pystr \<times> ndict)" where
  "classify s =
     (case re_search False MASTERSTHESIS s of
        Some m \<Rightarrow> Inr (str ''mastersthesis'', thesis_branch s m)
      | None \<Rightarrow>
     (case re_search False PHDTHESIS s of
        Some m \<Rightarrow> Inr (str ''phdthesis'', thesis_branch s m)
      | None \<Rightarrow>
     (let has_editor = (re_search False EDITOR s \<noteq> None);
          inc = (if has_editor then re_search False INCOLLECTION s else None);
          incp = (if has_editor \<and> inc = None then re_search False INCOLLECTIONPARENS s else None);
          incm = (if has_editor \<and> inc = None \<and> incp = None
                  then re_search False INCOLLECTIONMISSING s else None)
      in if inc \<noteq> None then Inr (str ''incollection'', incollection_branch True s (the inc))
         else if incp \<noteq> None then Inr (str ''incollection'', incollection_branch False s (the incp))
         else if incm \<noteq> None then Inr (str ''incollection'', incollectionmissing_branch s (the incm))
         else
     (case re_search False ARTICLE s of
        Some m \<Rightarrow> map_sum id (Pair (str ''article'')) (article_branch s m)
      | None \<Rightarrow>
     (case re_match False BOOK s of
        Some m \<Rightarrow>
          (let has_pubaddr = (re_search False PUBADDR s \<noteq> None)
           in if truthy (mgroup s m G_ed) \<or> has_pubaddr
              then Inr (str ''book'', book_branch s m has_pubaddr)
              else Inr (str ''misc'', []))
      | None \<Rightarrow>
     (case re_search False MISC s of
        Some m \<Rightarrow> Inr (str ''misc'', misc_branch s m)
      | None \<Rightarrow> Inr (str ''misc'', [])))))))"

text \<open>The steps after the chain: URL and DOI in the note, the end marks, the ampersands of the
  names, series and number in the book title.\<close>

definition post_note :: "ndict \<Rightarrow> ndict" where
  "post_note d =
     (case dict_get d (str ''note'') of
        Some (Some note) \<Rightarrow>
          if strip note \<noteq> [] then
            (let (d1, note1) = url_doi_tail d note
             in dict_set d1 (str ''note'')
                  (if strip_chars (str '' .'') note1 \<noteq> [] then Some (strip_chars (str '' .'') note1) else None))
          else d
      | _ \<Rightarrow> d)"

definition dget_str :: "ndict \<Rightarrow> pystr \<Rightarrow> pystr option" where
  "dget_str d k = (case dict_get d k of Some v \<Rightarrow> v | None \<Rightarrow> None)"

definition restore_endmark :: "pystr \<Rightarrow> pystr \<Rightarrow> ndict \<Rightarrow> ndict" where
  "restore_endmark mark field d =
     (if truthy (dget_str d mark) then
        (let e = the (dget_str d mark);
             d1 = (if (e = str ''!'' \<or> e = str ''?'') \<and> truthy (dget_str d field)
                   then dict_set d field (Some (the (dget_str d field) @ e)) else d)
         in dict_del d1 mark)
      else d)"

definition amp_to_and :: "pystr \<Rightarrow> ndict \<Rightarrow> ndict" where
  "amp_to_and field d =
     (if truthy (dget_str d field)
      then dict_set d field (Some (replace (str '' &'') (str '' and '') (the (dget_str d field))))
      else d)"

definition post_booktitle :: "ndict \<Rightarrow> ndict" where
  "post_booktitle d =
     (if truthy (dget_str d (str ''booktitle'')) then
        (case extract_seriesnumber (the (dget_str d (str ''booktitle''))) of
           (tail, Some sn) \<Rightarrow> dict_set (dict_update d (some_dict sn)) (str ''booktitle'') (nonblank tail)
         | (tail, None) \<Rightarrow> d)
      else d)"

text \<open>The citation key. \<^verbatim>\<open>year[:4] + extrayear\<close> raises when \<^verbatim>\<open>extrayear\<close> is \<^verbatim>\<open>None\<close>;
  the exception is caught and the year part stays \<^verbatim>\<open>9999\<close>.\<close>

definition creator_of :: "ndict \<Rightarrow> pystr" where
  "creator_of d =
     (if truthy (dget_str d (str ''author'')) then the (dget_str d (str ''author''))
      else if truthy (dget_str d (str ''editor'')) then the (dget_str d (str ''editor''))
      else [])"

definition creatorpart_of :: "ndict \<Rightarrow> pystr" where
  "creatorpart_of d =
     (if truthy (dget_str d (str ''author''))
      then replace (str '' '') [] (first_piece (split_on (str '','') (the (dget_str d (str ''author'')))))
      else if truthy (dget_str d (str ''editor''))
      then first_piece (split_on (str '' '') (first_piece (split_on (str '','') (the (dget_str d (str ''editor''))))))
      else str ''Anonymous'')"

definition yearpart_of :: "ndict \<Rightarrow> pystr" where
  "yearpart_of d =
     (if truthy (dget_str d (str ''year'')) then
        (case dict_get d (str ''extrayear'') of
           None \<Rightarrow> take 4 (the (dget_str d (str ''year'')))
         | Some None \<Rightarrow> str ''9999''
         | Some (Some e) \<Rightarrow> take 4 (the (dget_str d (str ''year''))) @ e)
      else str ''9999'')"

definition second_creator :: "pystr \<Rightarrow> pystr" where
  "second_creator creator =
     (let secondcreator = strip (last_piece (split_on (str '' and '') creator))
      in if contains (str '','') secondcreator then first_piece (split_on (str '','') secondcreator)
         else if contains (str '' '') secondcreator then last_piece (split_on (str '' '') secondcreator)
         else secondcreator)"

definition make_key :: "ndict \<Rightarrow> pystr" where
  "make_key d =
     (let creator = creator_of d;
          authorcount = 1 + count_sub (str '' and '') creator + count_sub (str ''&'') creator;
          creatorpart = creatorpart_of d
            @ (if authorcount > 2 then str ''EtAl''
               else if authorcount = 2 then second_creator creator else [])
      in creatorpart @ yearpart_of d)"

definition parse_natural :: "rec \<Rightarrow> pystr \<Rightarrow> error + rec" where
  "parse_natural r s0 =
     (let s = strip s0;
          r0 = r\<lparr>parsing_failed := False, rtyp := str ''misc'', key := None\<rparr>
      in if s = [] then Inr (r0\<lparr>parsing_failed := True\<rparr>)
         else
           (case classify s of
              Inl e \<Rightarrow> Inl e
            | Inr (t, d) \<Rightarrow>
                (let d1 = post_note d;
                     d2 = restore_endmark (str ''endmark'') (str ''title'') d1;
                     d3 = restore_endmark (str ''endmark1'') (str ''booktitle'') d2;
                     d4 = amp_to_and (str ''editor'') (amp_to_and (str ''author'') d3);
                     d5 = post_booktitle d4;
                     k = make_key d5;
                     d6 = dict_del d5 (str ''extrayear'')
                 in Inr (r0\<lparr>rtyp := t, key := Some k, flds := clean_and_brace_natural d6\<rparr>))))"

section \<open>The normalisation pipeline\<close>

subsection \<open>Field checks\<close>

definition q :: "pystr \<Rightarrow> pystr" where
  "q s = [39] @ s @ [39]"

definition remap_alias :: "rec \<Rightarrow> pystr \<times> pystr \<Rightarrow> rec" where
  "remap_alias r a =
     (let old = fst a; new = snd a; old_val = fget r old; new_val = fget r new
      in if is_real_value old_val then
           (if \<not> is_real_value new_val
            then fdel (err (fset r new (the old_val))
                        (str ''Remapped '' @ q old @ str '' to '' @ q new)) old
            else err r (str ''Both '' @ q old @ str '' and '' @ q new @ str '' present; no remap applied''))
         else r)"

definition remap_fields :: "rec \<Rightarrow> rec" where
  "remap_fields r =
     (let r1 = foldl remap_alias r
                 [(str ''location'', str ''address''), (str ''date'', str ''year''),
                  (str ''journaltitle'', str ''journal'')]
      in if rtyp r1 = str ''inproceedings''
            \<and> is_real_value (fget r1 (str ''eventtitle'')) \<and> \<not> is_real_value (fget r1 (str ''booktitle''))
         then err (fset r1 (str ''booktitle'') (the (fget r1 (str ''eventtitle''))))
                (str ''Remapped '' @ q (str ''eventtitle'') @ str '' to '' @ q (str ''booktitle''))
         else r1)"

definition page_count_re :: re where
  "page_count_re = seqs [Bol, rplus (Cls digit), ws,
     Grp G1 (Alt (seqs [Lit (str ''pp''), opt (Lit (str ''.''))]) (Lit (str ''pages''))), Eol]"

text \<open>The dashes of the page check: hyphens, figure dash U+2012, en dash U+2013, em dash U+2014,
  minus sign U+2212.\<close>

definition dash_re :: re where
  "dash_re = seqs [ws, rplus (alts [rplus (Lit (str ''-'')), Lit [8210], Lit [8211], Lit [8212], Lit [8722]]), ws]"

definition semicolon_re :: re where
  "semicolon_re = seqs [ws, Cls (chars '';,''), ws]"

definition unit_p :: re where
  "unit_p = Alt (seqs [opt (Cls (lower_az @ upper_az)), rplus (Cls digit)]) (rplus (Cls (chars ''ivxlcdm'')))"

definition range_p :: re where
  "range_p = seqs [unit_p, Lit (str ''--''), unit_p]"

definition entry_p :: re where
  "entry_p = Alt unit_p range_p"

definition pages_std_re :: re where
  "pages_std_re = seqs [Bol, entry_p, star (seqs [Lit (str '', ''), entry_p]), Eol]"

definition range_Roman :: re where
  "range_Roman = seqs [Bol, rplus (Cls (chars ''IVXLCDM'')), Lit (str ''--''), rplus (Cls (chars ''IVXLCDM'')), Eol]"

definition range_capture :: re where
  "range_capture = seqs [Grp G1 unit_p, Lit (str ''--''), Grp G2 unit_p]"

definition checkpages :: "rec \<Rightarrow> rec" where
  "checkpages r0 =
     (let r = (if fhas r0 (str ''page'') \<and> \<not> fhas r0 (str ''pages'')
               then fdel (fset r0 (str ''pages'') (the (fget r0 (str ''page'')))) (str ''page'')
               else r0)
      in if \<not> fhas r (str ''pages'') \<or> strip (the (fget r (str ''pages''))) = [] then r
         else
           (let pages = trim_braces (the (fget r (str ''pages'')))
            in if pages = [] then fdel r (str ''pages'')
               else if lower pages = str ''none'' then fdel r (str ''pages'')
               else if re_match True page_count_re pages \<noteq> None then fdel r (str ''pages'')
               else
                 (let pages1 = re_sub False dash_re (\<lambda>m. str ''--'') pages;
                      pages2 = re_sub False semicolon_re (\<lambda>m. str '', '') pages1;
                      pages3 = (case re_match True ARTICLE_ID_RE pages2 of
                                  Some m \<Rightarrow> group_str pages2 m G1 | None \<Rightarrow> pages2);
                      r1 = (if re_match False pages_std_re pages3 = None
                            then err r (str ''non-standard pages: '' @ pages3) else r);
                      r2 = (if re_match False range_Roman pages3 \<noteq> None
                            then err r1 (str ''capital Roman numerals in pages: '' @ pages3) else r1);
                      r3 = (case re_fullmatch False range_capture pages3 of
                              Some m \<Rightarrow> if group_str pages3 m G1 = group_str pages3 m G2
                                         then err r2 (str ''weird range: '' @ pages3) else r2
                            | None \<Rightarrow> r2)
                  in fset r3 (str ''pages'') (add_braces pages3))))"

definition checkbooktitle :: "rec \<Rightarrow> rec" where
  "checkbooktitle r =
     (if rtyp r \<notin> {str ''inproceedings'', str ''incollection'', str ''inbook''}
         \<and> \<not> is_real_value (fget r (str ''title'')) \<and> is_real_value (fget r (str ''booktitle''))
      then fdel (err (fset r (str ''title'') (the (fget r (str ''booktitle''))))
                  (str ''moved booktitle to title'')) (str ''booktitle'')
      else r)"

definition trailing_re :: re where
  "trailing_re = seqs [Bol, Lit (str ''{''), Grp G1 (lstar AnyC), rplus (Cls (chars '',:;. '')),
     Lit (str ''}''), Eol]"

definition leading_re :: re where
  "leading_re = seqs [Bol, Lit (str ''{''), rplus (Cls (chars '',:;. '')), Grp G1 (lstar AnyC),
     Lit (str ''}''), Eol]"

definition move_volume :: "rec \<Rightarrow> pystr \<Rightarrow> rec" where
  "move_volume r fieldname =
     (if \<not> fhas r fieldname \<or> \<not> is_real_value (fget r fieldname) then r
      else
        (let v = the (fget r fieldname)
         in case re_search False TITLEVOLUME_RE v of
              None \<Rightarrow> r
            | Some m \<Rightarrow>
                (let volume_match = group_str v m G3;
                     t0 = replace (group0 v m) [] v;
                     t1 = (case re_search False trailing_re t0 of
                             Some tm \<Rightarrow> add_braces (group_str t0 tm G1) | None \<Rightarrow> t0);
                     titlelike = (case re_search False leading_re t1 of
                             Some lm \<Rightarrow> add_braces (group_str t1 lm G1) | None \<Rightarrow> t1)
                 in if titlelike = str ''{}'' then err r (fieldname @ str '' is just '' @ v)
                    else if fhas r (str ''volume'') then
                      (let volume_old = trim_braces (the (fget r (str ''volume'')))
                       in if volume_old = volume_match
                          then err (fset r fieldname titlelike) (str ''deleted redundant volume in '' @ fieldname)
                          else err r (str ''mismatch: volume '' @ volume_old @ str '' but '' @ v))
                    else err (fset (fset r fieldname titlelike) (str ''volume'') (add_braces volume_match))
                           (str ''Moved volume '' @ volume_match @ str '' from '' @ fieldname))))"

definition checkvolumenumber :: "rec \<Rightarrow> rec" where
  "checkvolumenumber r =
     (let r1 = (if rtyp r = str ''book'' then move_volume r (str ''title'') else r)
      in if rtyp r1 \<in> {str ''incollection'', str ''inproceedings'', str ''inbook''}
         then move_volume r1 (str ''booktitle'') else r1)"

definition capcap_re :: re where
  "capcap_re = seqs [sp, Cls upper_az, Cls upper_az, sp]"
definition finalcapcap_re :: re where
  "finalcapcap_re = seqs [sp, Cls upper_az, Cls upper_az, Lit (str ''}''), Eol]"
definition initials_dot_re :: re where
  "initials_dot_re = seqs [Grp G1 (Cls upper_az), Lit (str ''.''), Grp G2 (Cls upper_az)]"
definition initial_space_re :: re where
  "initial_space_re = seqs [sp, Grp G1 (Cls upper_az), Ahead True sp]"
definition initial_final_re :: re where
  "initial_final_re = seqs [sp, Grp G1 (Cls upper_az), Lit (str ''}''), Eol]"

definition checkinitials_field :: "rec \<Rightarrow> pystr \<Rightarrow> rec" where
  "checkinitials_field r t =
     (if is_real_value (fget r t) then
        (let v0 = the (fget r t);
             v1 = re_sub False initials_dot_re (\<lambda>m. group_str v0 m G1 @ str ''. '' @ group_str v0 m G2) v0;
             v2 = re_sub False initial_space_re (\<lambda>m. str '' '' @ group_str v1 m G1 @ str ''.'') v1;
             v3 = re_sub False initial_final_re (\<lambda>m. str '' '' @ group_str v2 m G1 @ str ''.}'') v2;
             r1 = (if re_search False capcap_re v3 \<noteq> None \<or> re_search False finalcapcap_re v3 \<noteq> None
                   then err r (str ''possible double initials: '' @ v0) else r)
         in fset r1 t v3)
      else r)"

definition checkinitials :: "rec \<Rightarrow> rec" where
  "checkinitials r = foldl checkinitials_field r name_fields"

definition amp_flag :: "rec \<Rightarrow> pystr \<Rightarrow> pystr \<Rightarrow> rec" where
  "amp_flag r t v =
     (if re_search False AMP_RE v \<noteq> None
      then err r (str ''unescaped ampersand '' @ t @ str '': '' @ v) else r)"

definition checkampersand_name :: "rec \<Rightarrow> pystr \<Rightarrow> rec" where
  "checkampersand_name r t =
     (if is_real_value (fget r t) then
        (let v = replace (str '' '' @ [92] @ str ''& '') (str '' and '')
                   (replace (str '' & '') (str '' and '') (the (fget r t)))
         in amp_flag (fset r t v) t v)
      else r)"

definition checkampersand_other :: "rec \<Rightarrow> pystr \<Rightarrow> rec" where
  "checkampersand_other r t =
     (if is_real_value (fget r t) then
        (let v = replace (str '' & '') (str '' '' @ [92] @ str ''& '') (the (fget r t))
         in amp_flag (fset r t v) t v)
      else r)"

definition checkampersand :: "rec \<Rightarrow> rec" where
  "checkampersand r =
     foldl checkampersand_other (foldl checkampersand_name r name_fields)
       [str ''address'', str ''publisher'', str ''school'', str ''institution'', str ''journal'',
        str ''series'', str ''title'', str ''booktitle'', str ''maintitle'', str ''subtitle'',
        str ''volume'', str ''number'', str ''note'', str ''howpublished'', str ''addendum'']"

definition etal_re :: re where
  "etal_re = seqs [Lit (str '' et''), opt (Lit (str ''.'')), Lit (str '' al'')]"

definition checketal_field :: "rec \<Rightarrow> pystr \<Rightarrow> rec" where
  "checketal_field r t =
     (if truthy (fget r t) \<and> re_search False etal_re (the (fget r t)) \<noteq> None then
        (let v = re_sub False etal_re (\<lambda>m. str '' '' @ [92] @ str ''biberror{et al}'') (the (fget r t))
         in err (fset r t v) (str ''literal et al '' @ t @ str '': '' @ v))
      else r)"

definition checketal :: "rec \<Rightarrow> rec" where
  "checketal r = foldl checketal_field r name_fields"

definition checkand_field :: "rec \<Rightarrow> pystr \<Rightarrow> rec" where
  "checkand_field r t =
     (if is_real_value (fget r t)
         \<and> count_sub (str '','') (the (fget r t)) > count_sub (str '' and '') (the (fget r t)) + 1
      then err r (str ''problem with commas in '' @ t @ str '': '' @ the (fget r t))
      else r)"

definition checkand :: "rec \<Rightarrow> rec" where
  "checkand r = foldl checkand_field r name_fields"

definition ordinal_map :: "(pystr \<times> pystr) list" where
  "ordinal_map = [
     (str ''first'', str ''1''), (str ''1st'', str ''1''), (str ''second'', str ''2''), (str ''2nd'', str ''2''),
     (str ''third'', str ''3''), (str ''3rd'', str ''3''), (str ''fourth'', str ''4''), (str ''4th'', str ''4''),
     (str ''fifth'', str ''5''), (str ''5th'', str ''5''), (str ''sixth'', str ''6''), (str ''6th'', str ''6''),
     (str ''seventh'', str ''7''), (str ''7th'', str ''7''), (str ''eighth'', str ''8''), (str ''8th'', str ''8''),
     (str ''ninth'', str ''9''), (str ''9th'', str ''9''), (str ''tenth'', str ''10''), (str ''10th'', str ''10'')]"

definition edition_keywords :: "pystr list" where
  "edition_keywords = [str ''ed'', str ''ed.'', str ''edn'', str ''edn.'', str ''edition'']"

definition checkedition :: "rec \<Rightarrow> rec" where
  "checkedition r =
     (if \<not> truthy (fget r (str ''edition'')) then r
      else
        (let raw = the (fget r (str ''edition''));
             edn = lower (trim_braces raw);
             parts = split_ws edn;
             candidate = (if (length parts = 2 \<and> parts ! 1 \<in> set edition_keywords) \<or> length parts = 1
                          then Some (parts ! 0) else None);
             edn1 = (case candidate of
                       None \<Rightarrow> edn
                     | Some c \<Rightarrow> if isdigit c then c
                                 else (case map_of ordinal_map c of Some n \<Rightarrow> n | None \<Rightarrow> edn))
         in case py_int edn1 of
              Some n \<Rightarrow> fset r (str ''edition'') (add_braces edn1)
            | None \<Rightarrow> err r (str ''incorrect format for edition: '' @ raw)))"

definition month_map :: "(pystr \<times> pystr) list" where
  "month_map = [
     (str ''jan'', str ''1''), (str ''feb'', str ''2''), (str ''mar'', str ''3''), (str ''apr'', str ''4''),
     (str ''may'', str ''5''), (str ''jun'', str ''6''), (str ''jul'', str ''7''), (str ''aug'', str ''8''),
     (str ''sep'', str ''9''), (str ''oct'', str ''10''), (str ''nov'', str ''11''), (str ''dec'', str ''12''),
     (str ''january'', str ''1''), (str ''february'', str ''2''), (str ''march'', str ''3''),
     (str ''april'', str ''4''), (str ''june'', str ''6''), (str ''july'', str ''7''),
     (str ''august'', str ''8''), (str ''september'', str ''9''), (str ''october'', str ''10''),
     (str ''november'', str ''11''), (str ''december'', str ''12'')]"

definition checkmonth :: "rec \<Rightarrow> rec" where
  "checkmonth r =
     (if \<not> truthy (fget r (str ''month'')) then r
      else
        (let raw = the (fget r (str ''month''))
         in if raw = str ''{}'' then fdel r (str ''month'')
            else
              (let c0 = lower (if 123 \<in> set raw then trim_braces raw else raw);
                   c1 = (if startswith c0 (str ''0'') \<and> length c0 = 2 then tl c0 else c0);
                   cleaned = (case map_of month_map c1 of Some n \<Rightarrow> n | None \<Rightarrow> c1)
               in case py_int cleaned of
                    Some n \<Rightarrow>
                      if 1 \<le> n \<and> n \<le> 12 then fset r (str ''month'') (add_braces cleaned)
                      else fdel (err r (str ''incorrect format for month: '' @ raw)) (str ''month'')
                  | None \<Rightarrow> fdel (err r (str ''incorrect format for month: '' @ raw)) (str ''month''))))"

subsection \<open>checkurl\<close>

text \<open>
  When there is no URL, \<open>find_url\<close> looks for one in the \<^verbatim>\<open>handle\<close> field (and then
  \<^verbatim>\<open>checkurl\<close> returns: the result is \<open>Inl\<close>), in \<^verbatim>\<open>stableurl\<close> or \<^verbatim>\<open>opturl\<close>, and flags
  one in a note.
\<close>

definition move_stable :: "rec \<Rightarrow> rec" where
  "move_stable r =
     (if fhas r (str ''stableurl'')
      then fdel (fset r (str ''url'') (the (fget r (str ''stableurl'')))) (str ''stableurl'')
      else if fhas r (str ''opturl'')
      then fdel (fset r (str ''url'') (the (fget r (str ''opturl'')))) (str ''opturl'')
      else r)"

definition flag_note_url :: "rec \<Rightarrow> pystr \<Rightarrow> rec" where
  "flag_note_url r note_field =
     (if fhas r note_field \<and> contains (str ''http'') (the (fget r note_field))
      then err r (str ''URL found in '' @ note_field @ str '': '' @ the (fget r note_field))
      else r)"

definition find_url :: "rec \<Rightarrow> rec + rec" where
  "find_url r =
     (case (if fhas r (str ''handle'')
            then re_fullmatch True HANDLE_RE (trim_braces (the (fget r (str ''handle'')))) else None) of
        Some m \<Rightarrow>
          Inl (fdel (fset r (str ''url'')
                 (add_braces (str ''http://hdl.handle.net/''
                    @ group_str (trim_braces (the (fget r (str ''handle'')))) m G1)))
               (str ''handle''))
      | None \<Rightarrow>
          Inr (foldl flag_note_url (move_stable r) [str ''note'', str ''addendum'', str ''annote'']))"

text \<open>
  A URL with a space. \<^verbatim>\<open>URL_URLDATE_RE\<close> has one mgroup, so \<^verbatim>\<open>match.lastindex\<close> is 1 whenever
  it matches and the test \<^verbatim>\<open>match.lastindex >= 2\<close> fails: the branch that would split off an
  access date is never taken. The result is \<open>Inl\<close> when \<^verbatim>\<open>checkurl\<close> returns here.
\<close>

definition urldate_lastindex :: nat where
  "urldate_lastindex = 1"

definition url_space :: "rec \<Rightarrow> pystr \<Rightarrow> rec + (rec \<times> pystr)" where
  "url_space r url =
     (if count_sub (str '' '') url > 0 then
        (let r1 = err r (str ''space in url'')
         in case re_search False URL_URLDATE_RE url of
              Some m \<Rightarrow>
                if urldate_lastindex \<ge> 2 then
                  (if fhas r1 (str ''urldate'') then Inr (r1, group_str url m G1)
                   else Inr (fset r1 (str ''urldate'') (add_braces (group_str url m G2)), group_str url m G1))
                else
                  (case re_search True URL_RE url of
                     Some u \<Rightarrow> Inr (r1, group_str url u G1)
                   | None \<Rightarrow>
                       Inl (fset (err r1 (str ''url has space and nothing url-like: '' @ url)) (str ''url'')
                             (str ''{'' @ [92] @ str ''biberror{remove space and check url: '' @ url @ str ''}}'')))
            | None \<Rightarrow>
                (case re_search True URL_RE url of
                   Some u \<Rightarrow> Inr (r1, group_str url u G1)
                 | None \<Rightarrow>
                     Inl (fset (err r1 (str ''url has space and nothing url-like: '' @ url)) (str ''url'')
                           (str ''{'' @ [92] @ str ''biberror{remove space and check url: '' @ url @ str ''}}''))))
      else Inr (r, url))"

text \<open>The DOI in a URL: by the whitelist of the domain, or by \<^verbatim>\<open>GENERIC_DOI_RE\<close> for any
  other domain. The result is \<open>Inl\<close> when \<^verbatim>\<open>checkurl\<close> returns here.\<close>

definition url_doi :: "rec \<Rightarrow> pystr \<Rightarrow> rec + rec" where
  "url_doi r url =
     (case re_match True DOMAIN_RE url of
        None \<Rightarrow> Inr r
      | Some dm \<Rightarrow>
          (let url_domain = group_str url dm G1;
               doi_pattern = map_of DOI_WHITELIST_RE url_domain;
               doi_match = (case doi_pattern of Some p \<Rightarrow> re_search True p url
                            | None \<Rightarrow> re_search True GENERIC_DOI_RE url)
           in if url_domain = [] then Inr r
              else case doi_match of
                None \<Rightarrow> Inr r
              | Some m \<Rightarrow>
                  (let doi = group_str url m G1; braced_doi = add_braces doi
                   in if doi_pattern \<noteq> None then
                        (if fhas r (str ''doi'') then
                           (if lower (the (fget r (str ''doi''))) \<noteq> lower braced_doi
                            then Inr (err r (str ''DOI mismatch: extracted from URL ('' @ doi
                                   @ str '') differs from existing DOI ('' @ the (fget r (str ''doi'')) @ str '')''))
                            else Inr (fdel r (str ''url'')))
                         else Inl (fdel (err (fset r (str ''doi'') braced_doi)
                                     (str ''DOI set from trusted URL: '' @ doi @ str '' via '' @ url_domain))
                                   (str ''url'')))
                      else Inr (err r (str ''DOI-like string found in generic URL: '' @ doi
                                  @ str '' from '' @ url_domain)))))"

definition nonsites :: "pystr list" where
  "nonsites = [str ''ebrary'', str ''degruyter'', str ''myilibrary'', str ''academia'', str ''ebscohost'',
     str ''researchgate'']"

definition url_tail :: "rec \<Rightarrow> pystr \<Rightarrow> rec" where
  "url_tail r url =
     (case re_fullmatch True DOI_RE url of
        Some m \<Rightarrow>
          (let extracted_doi = group_str url m G1
           in if truthy (fget r (str ''doi'')) then
                (let existing_doi = trim_braces (the (fget r (str ''doi'')))
                 in if lower existing_doi \<noteq> lower extracted_doi
                    then err r (str ''DOI mismatch: extracted from URL field ('' @ extracted_doi
                           @ str '') differs from existing DOI field ('' @ existing_doi @ str '')'')
                    else fdel r (str ''url''))
              else fdel (err (fset r (str ''doi'') (add_braces extracted_doi))
                          (str ''DOI set from URL field: '' @ extracted_doi)) (str ''url''))
      | None \<Rightarrow>
          (let r1 = foldl (\<lambda>acc n. if contains n url
                      then err acc (str ''use url only for for true repositories or for material not available elsewhere: '' @ url)
                      else acc) r nonsites
           in if url \<noteq> [] then fset r1 (str ''url'') (add_braces url) else r1))"

definition checkurl :: "rec \<Rightarrow> rec" where
  "checkurl r0 =
     (case (if \<not> truthy (fget r0 (str ''url'')) then find_url r0 else Inr r0) of
        Inl r \<Rightarrow> r
      | Inr r \<Rightarrow>
          if \<not> truthy (fget r (str ''url'')) then r
          else
            (let u0 = trim_braces (the (fget r (str ''url'')));
                 url = (if endswith u0 (str ''.'') then butlast u0 else u0)
             in if url = [] then fdel r (str ''url'')
                else if startswith url (str ''file:'') then fdel r (str ''url'')
                else
                  (let r1 = (if \<not> startswith url (str ''http'')
                             then err r (str ''url does not start with http'') else r)
                   in case url_space r1 url of
                        Inl r2 \<Rightarrow> r2
                      | Inr (r2, url1) \<Rightarrow>
                          (let r3 = (if count_sub (str '','') url1 > 0
                                     then err r2 (str ''comma in url: '' @ url1) else r2)
                           in case url_doi r3 url1 of
                                Inl r4 \<Rightarrow> r4
                              | Inr r4 \<Rightarrow> url_tail r4 url1))))"

subsection \<open>checkurldate, checkdoi and the checks up to checkdecapitalization\<close>

text \<open>
  \<^verbatim>\<open>datetime.strptime(s, "%Y-%m-%d")\<close> followed by \<^verbatim>\<open>strftime("%Y-%m-%d")\<close>: \<open>None\<close> stands for
  \<^verbatim>\<open>ValueError\<close>. The pattern is the one \<^verbatim>\<open>strptime\<close> builds for the format; the whole string
  must be consumed and the date must exist in the calendar. The year is rendered with the four
  digits read.
\<close>

definition strptime_re :: re where
  "strptime_re = seqs [Grp G1 (seqs [Cls digit, Cls digit, Cls digit, Cls digit]), Lit (str ''-''),
     Grp G2 (alts [seqs [Lit (str ''1''), Cls [(48, 50)]], seqs [Lit (str ''0''), Cls [(49, 57)]], Cls [(49, 57)]]),
     Lit (str ''-''),
     Grp G3 (alts [seqs [Lit (str ''3''), Cls [(48, 49)]], seqs [Cls [(49, 50)], Cls digit],
                   seqs [Lit (str ''0''), Cls [(49, 57)]], Cls [(49, 57)], seqs [sp, Cls [(49, 57)]]])]"

definition days_in_month :: "int \<Rightarrow> int \<Rightarrow> int" where
  "days_in_month y mo =
     (if mo = 2 then (if y mod 4 = 0 \<and> (y mod 100 \<noteq> 0 \<or> y mod 400 = 0) then 29 else 28)
      else if mo \<in> {4, 6, 9, 11} then 30 else 31)"

definition two_digits :: "pystr \<Rightarrow> pystr" where
  "two_digits s = (let t = strip s in if length t = 1 then str ''0'' @ t else t)"

definition reformat_date :: "pystr \<Rightarrow> pystr option" where
  "reformat_date s =
     (case re_match False strptime_re s of
        None \<Rightarrow> None
      | Some m \<Rightarrow>
          if m_end m \<noteq> length s then None
          else (case (py_int (group_str s m G1), py_int (group_str s m G2), py_int (group_str s m G3)) of
                  (Some y, Some mo, Some d) \<Rightarrow>
                    if 1 \<le> y \<and> d \<le> days_in_month y mo
                    then Some (group_str s m G1 @ str ''-'' @ two_digits (group_str s m G2)
                               @ str ''-'' @ two_digits (group_str s m G3))
                    else None
                | _ \<Rightarrow> None))"

definition flag_iso_date :: "rec \<Rightarrow> pystr \<Rightarrow> rec" where
  "flag_iso_date r field =
     (if truthy (fget r field) \<and> re_search False ISO_DATE_RE (trim_braces (the (fget r field))) \<noteq> None
      then err r (str ''ISO-like date found in '' @ field @ str '': '' @ trim_braces (the (fget r field)))
      else r)"

definition checkurldate :: "rec \<Rightarrow> rec" where
  "checkurldate r =
     (let url = fget r (str ''url''); urldate = fget r (str ''urldate'');
          r1 = (if truthy urldate \<and> \<not> truthy url then err r (str ''urldate exists but url is missing'') else r);
          r2 = (if truthy urldate then
                  (case reformat_date (trim_braces (the urldate)) of
                     Some d \<Rightarrow> fset r1 (str ''urldate'') (add_braces d)
                   | None \<Rightarrow> err r1 (str ''invalid urldate format: '' @ trim_braces (the urldate)))
                else r1)
      in if rtyp r2 = str ''misc'' \<and> truthy url \<and> \<not> truthy urldate
         then foldl flag_iso_date r2 [str ''note'', str ''addendum'', str ''annote'']
         else r2)"

definition doi_label_re :: re where
  "doi_label_re = seqs [WordB, Lit (str ''doi:''), ws]"
definition doi_url_re :: re where
  "doi_url_re = seqs [WordB, Lit (str ''http''), opt (Lit (str ''s'')), Lit (str ''://''),
     opt (Lit (str ''dx.'')), Lit (str ''doi.org/'')]"
definition doi_org_re :: re where
  "doi_org_re = seqs [WordB, Lit (str ''doi.org/'')]"

definition clean_doi :: "pystr \<Rightarrow> pystr" where
  "clean_doi original =
     (let raw0 = (if endswith original (str ''.'') then butlast original else original);
          raw1 = replace ([92] @ str ''_'') (str ''_'') raw0;
          raw2 = re_sub True doi_label_re (\<lambda>m. []) raw1;
          raw3 = re_sub True doi_url_re (\<lambda>m. []) raw2
      in re_sub True doi_org_re (\<lambda>m. []) raw3)"

text \<open>A handle stored as a DOI: the result is \<open>Inl\<close> when \<^verbatim>\<open>checkdoi\<close> returns here.\<close>

definition doi_handle :: "rec \<Rightarrow> pystr \<Rightarrow> rec + rec" where
  "doi_handle r raw =
     (case re_fullmatch True HANDLE_RE raw of
        None \<Rightarrow> Inr r
      | Some m \<Rightarrow>
          (let handle = group_str raw m G1;
               url = add_braces (str ''https://hdl.handle.net/'' @ handle)
           in if fhas r (str ''url'') then
                (if the (fget r (str ''url'')) = url
                 then Inl (err (fdel r (str ''doi''))
                             (str ''Deleted handle in doi; keep matching url: '' @ url))
                 else Inr (err r (str ''Possible handle in doi doesn'' @ [39]
                             @ str ''t match url; check both: doi = '' @ raw @ str '', url = '' @ url)))
              else Inl (err (fset (fdel r (str ''doi'')) (str ''url'') url)
                          (str ''Handle detected in doi and converted to URL: '' @ handle))))"

definition doi_in_url :: "rec \<Rightarrow> pystr \<Rightarrow> rec" where
  "doi_in_url r raw =
     (case re_search True DOI_RE raw of
        Some m \<Rightarrow>
          (let doi = group_str raw m G1; braced_doi = add_braces doi
           in if fhas r (str ''url'') then
                (let url = the (fget r (str ''url''))
                 in if contains doi url
                    then err (fdel (fset r (str ''doi'') braced_doi) (str ''url''))
                           (str ''fix doi, delete similar: '' @ doi)
                    else err (fset r (str ''doi'') braced_doi)
                           (str ''fix doi, keep url: check both: url = '' @ url @ str '', doi = '' @ raw))
              else err (fset r (str ''doi'') braced_doi) (str ''DOI extracted from URL-like string: '' @ doi))
      | None \<Rightarrow>
          err (fdel r (str ''doi''))
            (str ''delete url-like doi that doesnt'' @ [39] @ str '' have a DOI: '' @ raw))"

definition checkdoi :: "rec \<Rightarrow> rec" where
  "checkdoi r =
     (if \<not> truthy (fget r (str ''doi'')) then r
      else
        (let original = trim_braces (the (fget r (str ''doi'')));
             raw = clean_doi original
         in case re_fullmatch True DOI_RE raw of
              Some m \<Rightarrow>
                (let doi = group_str raw m G1; r1 = fset r (str ''doi'') (add_braces doi)
                 in if doi \<noteq> original then err r1 (str ''DOI extracted and normalized: '' @ doi) else r1)
            | None \<Rightarrow>
                (case doi_handle r raw of
                   Inl r1 \<Rightarrow> r1
                 | Inr r1 \<Rightarrow>
                     if startswith (lower raw) (str ''http'') then doi_in_url r1 raw
                     else err (fdel r1 (str ''doi'')) (str ''Invalid DOI: '' @ raw))))"

definition checkquestionmarks :: "rec \<Rightarrow> rec" where
  "checkquestionmarks r =
     foldl (\<lambda>acc (field, v). if v \<noteq> [] \<and> contains (str ''??'') v then err acc (str ''?? in '' @ field) else acc)
       r (flds r)"

text \<open>The loop of \<^verbatim>\<open>checkbookisthesis\<close> stops at the first field that is flagged.\<close>

fun thesis_flag :: "rec \<Rightarrow> pystr list \<Rightarrow> rec" where
  "thesis_flag r [] = r"
| "thesis_flag r (field # rest) =
     (if is_real_value (fget r field) \<and> re_search True THESIS_RE (the (fget r field)) \<noteq> None
      then err r (str ''possible thesis indicator in '' @ field @ str '': '' @ the (fget r field))
      else thesis_flag r rest)"

definition checkbookisthesis :: "rec \<Rightarrow> rec" where
  "checkbookisthesis r =
     (if rtyp r \<noteq> str ''book'' then r
      else thesis_flag r [str ''publisher'', str ''url'', str ''note''])"

subsection \<open>checkdecapitalization\<close>

text \<open>
  \<open>PRESERVATIONPATTERN nouns\<close> is \<^verbatim>\<open>\b(...)\b\<close> around the alternation \<open>nouns\<close> of the proper
  nouns. The loop over \<^verbatim>\<open>finditer\<close> runs over the matches in the string as it is before the
  loop, and replaces in the string as it is after the previous replacements.
\<close>

definition PRESERVATIONPATTERN :: "re \<Rightarrow> re" where
  "PRESERVATIONPATTERN nouns = seqs [WordB, Grp G1 nouns, WordB]"

definition lone_capital_re :: re where
  "lone_capital_re = seqs [sp, Grp G1 (Cls upper_az), sp]"

definition title_fields :: "pystr list" where
  "title_fields = [str ''title'', str ''booktitle'', str ''subtitle'', str ''maintitle'',
     str ''mainsubtitle'', str ''booksubtitle'']"

definition protect_nouns :: "re \<Rightarrow> pystr \<Rightarrow> pystr" where
  "protect_nouns nouns s =
     foldl (\<lambda>protected m. replace (group_str s m G1) (add_braces (group_str s m G1)) protected)
       s (finditer False (PRESERVATIONPATTERN nouns) s)"

definition protect :: "re \<Rightarrow> pystr \<Rightarrow> pystr" where
  "protect nouns original =
     (let p1 = re_sub False MAINTITLE_RE
                 (\<lambda>m. group_str original m G1 @ str '' '' @ add_braces (upper (group_str original m G2)))
                 original;
          p2 = re_sub False CAMELCASE_RE (\<lambda>m. add_braces (group_str p1 m G1)) p1;
          p3 = re_sub False lone_capital_re (\<lambda>m. str '' {{'' @ group_str p2 m G1 @ str ''}} '') p2;
          p4 = protect_nouns nouns p3
      in if re_search False PROCEEDINGS_RE p4 \<noteq> None then add_braces p4 else p4)"

definition decap_field :: "re \<Rightarrow> rec \<Rightarrow> pystr \<Rightarrow> rec" where
  "decap_field nouns r field =
     (if \<not> truthy (fget r field) then r
      else
        (let original = trim_braces (the (fget r field));
             protected = protect nouns original;
             r1 = (if re_search False PROCEEDINGS_LC_RE protected \<noteq> None
                   then err r (str ''Proper name of proceedings/conference not capitalized/protected?: '' @ protected)
                   else r)
         in if original \<noteq> protected then fset r1 field (add_braces protected) else r1))"

definition checkdecapitalization :: "re \<Rightarrow> rec \<Rightarrow> rec" where
  "checkdecapitalization nouns r =
     (if fhas r (str ''langid'')
         \<and> trim_braces (the (fget r (str ''langid''))) \<in> {str ''german'', str ''ngerman'', str ''de''}
      then r
      else foldl (decap_field nouns) r title_fields)"

subsection \<open>Entry checks by type\<close>

definition handleerror :: "rec \<Rightarrow> pystr \<Rightarrow> rec" where
  "handleerror r m =
     (if \<not> truthy (fget r m)
      then err (fset r m (str ''{'' @ [92] @ str ''biberror{no '' @ m @ str ''}}'')) (str ''missing '' @ m)
      else r)"

text \<open>\<^verbatim>\<open>addsortname\<close> changes nothing: its body is commented out.\<close>

definition addsortname :: "rec \<Rightarrow> rec" where
  "addsortname r = r"

definition requirepages :: "rec \<Rightarrow> rec" where
  "requirepages r =
     (if \<not> truthy (fget r (str ''pages'')) then
        (if \<not> truthy (fget r (str ''url'')) \<and> \<not> truthy (fget r (str ''doi''))
         then handleerror r (str ''pages'') else err r (str ''no pages''))
      else r)"

definition checkarticle :: "rec \<Rightarrow> rec" where
  "checkarticle r =
     (if rtyp r \<noteq> str ''article'' then r
      else
        (let r1 = (if fget r (str ''volume'') = None \<and> fget r (str ''number'') \<noteq> None
                   then fdel (fset r (str ''volume'') (the (fget r (str ''number'')))) (str ''number'')
                   else r);
             r2 = foldl handleerror r1 [str ''author'', str ''year'', str ''title'', str ''journal'', str ''volume'']
         in requirepages (addsortname r2)))"

definition any_sub :: "pystr list \<Rightarrow> pystr \<Rightarrow> bool" where
  "any_sub substrings s = (\<exists>sub \<in> set substrings. contains sub s)"

text \<open>The loop over \<^verbatim>\<open>PUBLISHER_ADDRESS\<close> stops at the first entry with a substring of the
  lower-case publisher.\<close>

fun lookup_address :: "(pystr list \<times> pystr) list \<Rightarrow> pystr \<Rightarrow> pystr option" where
  "lookup_address [] p = None"
| "lookup_address ((substrings, address) # rest) p =
     (if any_sub substrings p then Some address else lookup_address rest p)"

definition opt_str :: "pystr option \<Rightarrow> pystr" where
  "opt_str v = (case v of None \<Rightarrow> [] | Some s \<Rightarrow> s)"

definition checkpublisheraddress :: "rec \<Rightarrow> rec" where
  "checkpublisheraddress r =
     (let address = opt_str (fget r (str ''address''));
          publisher = opt_str (fget r (str ''publisher''));
          r1 = (if publisher \<noteq> [] \<and> contains (str '': '') publisher
                then err r (str ''separate address from publisher: '' @ publisher) else r);
          publisher1 = (if publisher \<noteq> [] then
                          (case map_of PUBLISHER_FULL publisher of Some p \<Rightarrow> p | None \<Rightarrow> publisher)
                        else publisher);
          r2 = (if publisher \<noteq> [] \<and> map_of PUBLISHER_FULL publisher \<noteq> None
                then fset r1 (str ''publisher'') publisher1 else r1)
      in if address \<noteq> [] then
           (if contains (str '', '') address then err r2 (str ''use one place only: '' @ address) else r2)
         else (case lookup_address PUBLISHER_ADDRESS (lower publisher1) of
                 Some a \<Rightarrow> fset r2 (str ''address'') a
               | None \<Rightarrow> r2))"

definition thesis_type_re :: re where
  "thesis_type_re = seqs [Cls space_cls, lstar AnyC,
     Grp G1 (Alt (Lit (str ''Thesis'')) (Lit (str ''Dissertation'')))]"

definition checkthesis :: "rec \<Rightarrow> rec" where
  "checkthesis r =
     (if rtyp r \<notin> {str ''phdthesis'', str ''mastersthesis'', str ''thesis''} then r
      else
        (let r1 = (if fget r (str ''school'') = None \<and> fget r (str ''institution'') \<noteq> None
                   then fdel (fset r (str ''school'') (the (fget r (str ''institution'')))) (str ''institution'')
                   else r);
             r2 = (case fget r1 (str ''school'') of
                     Some sch \<Rightarrow> (case map_of SCHOOL_FULL sch of
                                    Some full \<Rightarrow> fset r1 (str ''school'') full | None \<Rightarrow> r1)
                   | None \<Rightarrow> r1);
             r3 = (case (fget r2 (str ''address''), fget r2 (str ''school'')) of
                     (None, Some sch) \<Rightarrow> (case map_of SCHOOL_ADDRESS sch of
                                            Some a \<Rightarrow> fset r2 (str ''address'') a | None \<Rightarrow> r2)
                   | _ \<Rightarrow> r2);
             r4 = addsortname (foldl handleerror r3
                     [str ''author'', str ''title'', str ''address'', str ''school'', str ''year'']);
             r5 = (if rtyp r4 = str ''thesis'' then handleerror r4 (str ''type'') else r4)
         in if truthy (fget r5 (str ''type'')) \<and> re_search False thesis_type_re (the (fget r5 (str ''type''))) \<noteq> None
            then err r5 (str ''type field may be in Title Case: '' @ the (fget r5 (str ''type'')))
            else r5))"

definition checkbook :: "rec \<Rightarrow> rec" where
  "checkbook r =
     (if rtyp r \<noteq> str ''book'' then r
      else
        (let r1 = foldl handleerror (checkpublisheraddress r)
                    [str ''year'', str ''title'', str ''address'', str ''publisher''];
             r2 = (if fget r1 (str ''series'') \<noteq> None
                      \<and> fget r1 (str ''volume'') \<noteq> None \<and> fget r1 (str ''number'') = None
                   then fdel (fset r1 (str ''number'') (the (fget r1 (str ''volume'')))) (str ''volume'')
                   else r1);
             author = truthy (fget r2 (str ''author''));
             editor = truthy (fget r2 (str ''editor''));
             r3 = (if author \<and> editor then addsortname (err r2 (str ''both author and editor''))
                   else if author \<or> editor then addsortname r2
                   else handleerror (err r2 (str ''no author or editor'')) (str ''author''))
         in if is_real_value (fget r3 (str ''pages''))
            then err r3 (str ''book shouldn'' @ [39] @ str ''t have pages'') else r3))"

definition checkincollection :: "rec \<Rightarrow> rec" where
  "checkincollection r =
     (if rtyp r \<noteq> str ''incollection'' then r
      else
        (let r1 = handleerror (addsortname (handleerror (checkpublisheraddress r) (str ''author''))) (str ''title'');
             r2 = requirepages r1;
             has_crossref = fhas r2 (str ''crossref'');
             booktitle = opt_str (fget r2 (str ''booktitle''));
             is_proceedings = (re_search True PROCEEDINGS_FUZZY_RE booktitle \<noteq> None);
             r3 = (if is_proceedings
                   then err r2 (str ''booktitle suggests proceedings: use @inproceedings for proceedings'')
                   else r2)
         in if has_crossref then r3
            else
              (let r4 = handleerror r3 (str ''year'')
               in if booktitle \<noteq> [] then
                    (if \<not> is_proceedings
                     then foldl handleerror r4 [str ''editor'', str ''publisher'', str ''address'']
                     else r4)
                  else foldl handleerror r4
                         [str ''booktitle'', str ''editor'', str ''publisher'', str ''address''])))"

definition checkinproceedings :: "rec \<Rightarrow> rec" where
  "checkinproceedings r =
     (if rtyp r \<noteq> str ''inproceedings'' then r
      else
        (let r1 = handleerror (addsortname (handleerror (checkpublisheraddress r) (str ''author''))) (str ''title'');
             r2 = requirepages r1
         in if \<not> fhas r2 (str ''crossref'')
            then handleerror (handleerror r2 (str ''booktitle'')) (str ''year'')
            else r2))"

text \<open>A value formatted into a message: \<^verbatim>\<open>None\<close> is printed as the word.\<close>

definition py_repr :: "pystr option \<Rightarrow> pystr" where
  "py_repr v = (case v of None \<Rightarrow> str ''None'' | Some s \<Rightarrow> s)"

definition checkinbook :: "rec \<Rightarrow> rec" where
  "checkinbook r =
     (if rtyp r \<noteq> str ''inbook'' then r
      else
        (let r1 = handleerror (addsortname (handleerror (checkpublisheraddress r) (str ''author''))) (str ''title'');
             r2 = (if \<not> truthy (fget r1 (str ''chapter'')) \<and> \<not> truthy (fget r1 (str ''pages''))
                   then handleerror (handleerror
                          (err r1 (str ''@inbook entry must have either '' @ q (str ''chapter'')
                             @ str '' or '' @ q (str ''pages''))) (str ''chapter'')) (str ''pages'')
                   else r1)
         in if fhas r2 (str ''crossref'') then r2
            else
              (let r3 = handleerror (handleerror r2 (str ''year'')) (str ''booktitle'');
                   editor = fget r3 (str ''editor'');
                   bookauthor = fget r3 (str ''bookauthor'');
                   author = fget r3 (str ''author'');
                   r4 = (if truthy editor \<and> truthy bookauthor then
                           err r3 (str ''@inbook has bookauthor and editor. Is the entry really @incollection for a chapter by ''
                             @ py_repr author @ str '' in book edited by '' @ py_repr editor
                             @ str '', or @inbook for a contribution by '' @ py_repr author
                             @ str '' in a book authored by '' @ py_repr bookauthor @ str ''?'')
                         else if truthy editor \<and> \<not> truthy bookauthor then
                           err r3 (str ''If '' @ py_repr editor
                             @ str '' is really the editor of the book, then use @incollection instead of @inbook. If ''
                             @ py_repr editor @ str '' is actually the author of the book, then use the ''
                             @ q (str ''bookauthor'') @ str '' field instead.'')
                         else if \<not> truthy editor \<and> \<not> truthy bookauthor then
                           handleerror (err r3 (str ''Who is the author of the book?'')) (str ''bookauthor'')
                         else r3)
               in foldl handleerror r4 [str ''publisher'', str ''address''])))"

definition checkmisc :: "rec \<Rightarrow> rec" where
  "checkmisc r =
     (if rtyp r \<noteq> str ''misc'' then r
      else
        (let r1 = foldl handleerror r [str ''author'', str ''title'', str ''year'']
         in if fget r1 (str ''note'') = None \<and> fget r1 (str ''howpublished'') = None
            then err r1 (str ''no note or howpublished'') else r1))"

definition known_types :: "pystr list" where
  "known_types = [str ''article'', str ''book'', str ''inbook'', str ''incollection'', str ''inproceedings'',
     str ''thesis'', str ''phdthesis'', str ''mastersthesis'', str ''misc'']"

definition checkothertype :: "rec \<Rightarrow> rec" where
  "checkothertype r =
     (if rtyp r \<in> set known_types then r
      else checkpublisheraddress (addsortname
             (foldl handleerror r [str ''author'', str ''title'', str ''year''])))"

subsection \<open>conform\<close>

definition field_checks :: "re \<Rightarrow> rec \<Rightarrow> rec" where
  "field_checks nouns r =
     checkdecapitalization nouns (checkmonth (checkbookisthesis (checkquestionmarks (checkdoi
       (checkurldate (checkurl (checkedition (checkand (checketal (checkampersand (checkinitials
         (checkvolumenumber (checkbooktitle (checkpages (remap_fields r)))))))))))))))"

definition type_checks :: "rec \<Rightarrow> rec" where
  "type_checks r =
     checkothertype (checkmisc (checkinbook (checkinproceedings (checkincollection
       (checkbook (checkthesis (checkarticle r)))))))"

definition conform :: "re \<Rightarrow> rec \<Rightarrow> rec" where
  "conform nouns r = type_checks (field_checks nouns r)"

section \<open>Rendering and the batch\<close>

definition nl :: pystr where "nl = [10]"

definition bibtex :: "rec \<Rightarrow> pystr" where
  "bibtex r =
     (if parsing_failed r then []
      else if restrict r \<and> (case key r of None \<Rightarrow> True | Some k \<Rightarrow> k \<notin> set (inkeysd r)) then []
      else replace (str '',,'') (str '','')
             (str ''@'' @ rtyp r @ str ''{'' @ py_repr (key r) @ str '','' @ nl @ [9]
              @ join (str '','' @ nl @ [9])
                  (map (\<lambda>f. f @ str '' = '' @ the (fget r f))
                     (filter (\<lambda>f. f \<notin> set excludefields) (sort (map fst (flds r)))))
              @ nl @ str ''}''))"

text \<open>\<^verbatim>\<open>Record(s, ...)\<close>: the constructor parses and, when the parse has not failed, conforms.
  In the BibTeX format it reads and extends the dictionary \<^verbatim>\<open>keys\<close>.\<close>

definition new_record :: "pystr \<Rightarrow> pystr list \<Rightarrow> bool \<Rightarrow> rec" where
  "new_record s inkeys restr =
     \<lparr>raw_entry = s, parsing_failed = False, errors = [], restrict = restr, inkeysd = inkeys,
      rtyp = [], key = None, flds = []\<rparr>"

definition Record :: "re \<Rightarrow> pystr list \<Rightarrow> pystr \<Rightarrow> bool \<Rightarrow> pystr list \<Rightarrow> bool \<Rightarrow> error + (rec \<times> pystr list)" where
  "Record nouns keys s bibtexformat inkeys restr =
     (let r0 = new_record s inkeys restr
      in if bibtexformat then
           (let (r, keys') = parse_bibtex keys r0 s
            in Inr (if parsing_failed r then r else conform nouns r, keys'))
         else
           (case parse_natural r0 s of
              Inl e \<Rightarrow> Inl e
            | Inr r \<Rightarrow> Inr (if parsing_failed r then r else conform nouns r, keys)))"

text \<open>The loop over the entries: an exception in one entry is printed and raised again, so
  the loop ends with it.\<close>

fun process_entries :: "re \<Rightarrow> pystr list \<Rightarrow> bool \<Rightarrow> pystr list \<Rightarrow> bool \<Rightarrow> pystr list
    \<Rightarrow> error + (rec list \<times> pystr list)" where
  "process_entries nouns keys bibtexformat inkeys restr [] = Inr ([], keys)"
| "process_entries nouns keys bibtexformat inkeys restr (entry # entries) =
     (case Record nouns keys entry bibtexformat inkeys restr of
        Inl e \<Rightarrow> Inl e
      | Inr (r, keys') \<Rightarrow>
          (case process_entries nouns keys' bibtexformat inkeys restr entries of
             Inl e \<Rightarrow> Inl e
           | Inr (rs, keys'') \<Rightarrow> Inr (r # rs, keys'')))"

definition entry_split_re :: re where
  "entry_split_re = seqs [Lit nl, ws, Lit (str ''@'')]"

text \<open>\<^verbatim>\<open>str.splitlines\<close>: the line boundaries are line feed, carriage return (with a following
  line feed), vertical tab, form feed, the separators U+001C to U+001E, U+0085, U+2028 and
  U+2029.\<close>

definition line_break :: "nat \<Rightarrow> bool" where
  "line_break c = (c \<in> set [10, 11, 12, 13, 28, 29, 30, 133, 8232, 8233])"

fun splitlines_acc :: "pystr \<Rightarrow> pystr \<Rightarrow> pystr list" where
  "splitlines_acc acc [] = (if acc = [] then [] else [rev acc])"
| "splitlines_acc acc (c # cs) =
     (if c = 13 \<and> cs \<noteq> [] \<and> hd cs = 10 then rev acc # splitlines_acc [] (tl cs)
      else if line_break c then rev acc # splitlines_acc [] cs
      else splitlines_acc (c # acc) cs)"

definition splitlines :: "pystr \<Rightarrow> pystr list" where
  "splitlines s = splitlines_acc [] s"

definition split_input :: "bool \<Rightarrow> pystr \<Rightarrow> pystr \<times> pystr list" where
  "split_input bibtexformat s =
     (if bibtexformat then
        (let bibtex_entries = re_split False entry_split_re s
         in if startswith s (str ''@'')
            then ([], (case bibtex_entries of [] \<Rightarrow> []
                       | e # es \<Rightarrow> lstrip_by (\<lambda>c. c = 64) e # es))
            else (strip (first_piece bibtex_entries), tl bibtex_entries))
      else ([], map (\<lambda>line. strip (re_sub False spaces_re (\<lambda>m. str '' '') line))
                  (filter (\<lambda>line. strip line \<noteq> []) (splitlines s))))"

definition key_str :: "rec \<Rightarrow> pystr" where
  "key_str r = (case key r of None \<Rightarrow> [] | Some k \<Rightarrow> k)"

text \<open>\<^verbatim>\<open>sorted\<close> is stable; with \<^verbatim>\<open>reverse=True\<close> it is the stable sort of the reversed
  list, reversed.\<close>

definition sort_records :: "rec list \<Rightarrow> rec list" where
  "sort_records rs = rev (sort_key rtyp (rev (sort_key key_str rs)))"

definition render :: "bool \<Rightarrow> pystr \<Rightarrow> rec list \<Rightarrow> pystr" where
  "render bibtexformat preamble processed_records =
     (let nonparsed = filter parsing_failed processed_records;
          parsing_failure = join (nl @ nl)
            (map (\<lambda>r. (if bibtexformat then str ''@'' else []) @ raw_entry r) nonparsed);
          parsed_records = filter (\<lambda>r. \<not> parsing_failed r) processed_records;
          output = join (nl @ nl) (filter (\<lambda>t. t \<noteq> []) (map bibtex (sort_records parsed_records)));
          output1 = (if preamble \<noteq> [] then preamble @ nl @ nl @ output else output)
      in if nonparsed \<noteq> [] then parsing_failure @ nl @ nl @ output1 else output1)"

definition normalize :: "re \<Rightarrow> pystr list \<Rightarrow> pystr \<Rightarrow> pystr list \<Rightarrow> bool \<Rightarrow> bool
    \<Rightarrow> error + (pystr \<times> pystr list)" where
  "normalize nouns keys s0 inkeys restr bibtexformat =
     (let (preamble, input_entries) = split_input bibtexformat (strip s0)
      in case process_entries nouns keys bibtexformat inkeys restr input_entries of
           Inl e \<Rightarrow> Inl e
         | Inr (processed_records, keys') \<Rightarrow>
             Inr (render bibtexformat preamble processed_records, keys'))"

section \<open>The order and the layout of the output\<close>

lemma sorted_wrt_refine:
  "sorted_wrt S xs \<Longrightarrow> (\<And>t. sorted_wrt Q (filter (\<lambda>x. f x = t) xs))
    \<Longrightarrow> sorted_wrt (\<lambda>a b. S a b \<and> (f a = f b \<longrightarrow> Q a b)) xs"
proof (induction xs)
  case Nil
  then show ?case by simp
next
  case (Cons x xs)
  have tail: "\<And>t. sorted_wrt Q (filter (\<lambda>x. f x = t) xs)"
  proof -
    fix t
    from Cons.prems(2)[of t] show "sorted_wrt Q (filter (\<lambda>x. f x = t) xs)"
      by (simp split: if_splits)
  qed
  have hd: "\<And>y. y \<in> set xs \<Longrightarrow> f x = f y \<Longrightarrow> Q x y"
  proof -
    fix y assume "y \<in> set xs" "f x = f y"
    with Cons.prems(2)[of "f x"] show "Q x y" by simp
  qed
  from Cons.prems(1) have "sorted_wrt S xs" and "\<forall>y\<in>set xs. S x y" by simp_all
  with Cons.IH tail hd show ?case by simp
qed

lemma sort_records_sorted:
  "sorted_wrt (\<lambda>a b. rtyp b < rtyp a \<or> (rtyp a = rtyp b \<and> key_str a \<le> key_str b)) (sort_records rs)"
proof -
  let ?ys = "sort_key key_str rs"
  let ?zs = "sort_key rtyp (rev ?ys)"
  have s1: "sorted_wrt (\<lambda>a b. rtyp b \<le> rtyp a) (rev ?zs)"
    using sorted_sort_key[of rtyp "rev ?ys"] by (simp add: sorted_wrt_rev sorted_map)
  have s2: "\<And>t. sorted_wrt (\<lambda>a b. key_str a \<le> key_str b) (filter (\<lambda>x. rtyp x = t) (rev ?zs))"
  proof -
    fix t
    have "filter (\<lambda>x. rtyp x = t) (rev ?zs) = rev (filter (\<lambda>x. rtyp x = t) ?zs)"
      by (simp add: rev_filter)
    also have "\<dots> = rev (filter (\<lambda>x. rtyp x = t) (rev ?ys))"
      by (simp add: sort_key_stable)
    also have "\<dots> = filter (\<lambda>x. rtyp x = t) ?ys"
      by (simp add: rev_filter)
    finally have e: "filter (\<lambda>x. rtyp x = t) (rev ?zs) = filter (\<lambda>x. rtyp x = t) ?ys" .
    have "sorted_wrt (\<lambda>a b. key_str a \<le> key_str b) ?ys"
      using sorted_sort_key[of key_str rs] by (simp add: sorted_map)
    then show "sorted_wrt (\<lambda>a b. key_str a \<le> key_str b) (filter (\<lambda>x. rtyp x = t) (rev ?zs))"
      unfolding e by (rule sorted_wrt_filter)
  qed
  have "sorted_wrt (\<lambda>a b. rtyp b \<le> rtyp a \<and> (rtyp a = rtyp b \<longrightarrow> key_str a \<le> key_str b)) (rev ?zs)"
    using sorted_wrt_refine[OF s1 s2] .
  then have "sorted_wrt (\<lambda>a b. rtyp b < rtyp a \<or> (rtyp a = rtyp b \<and> key_str a \<le> key_str b)) (rev ?zs)"
    by (rule sorted_wrt_mono_rel[rotated]) auto
  then show ?thesis by (simp add: sort_records_def)
qed

lemma sort_records_mset: "mset (sort_records rs) = mset rs"
  by (simp add: sort_records_def)

lemma render_layout:
  "render fmt preamble recs =
     (if filter parsing_failed recs \<noteq> []
      then join (nl @ nl) (map (\<lambda>r. (if fmt then str ''@'' else []) @ raw_entry r) (filter parsing_failed recs)) @ nl @ nl
      else [])
     @ (if preamble \<noteq> [] then preamble @ nl @ nl else [])
     @ join (nl @ nl) (filter (\<lambda>t. t \<noteq> []) (map bibtex (sort_records (filter (\<lambda>r. \<not> parsing_failed r) recs))))"
  by (simp add: render_def Let_def)

text \<open>
  Claim C9. Whenever \<open>normalize\<close> returns, its output is, in this order: the block of the raw
  entries whose parse failed, joined by blank lines (when there is one); the preamble (when there
  is one); the rendered entries whose parse succeeded, joined by blank lines. Each block is
  followed by a blank line. The rendered entries are a rearrangement of the parsed records in
  which a greater type tag comes first and, among equal type tags, the keys ascend.
\<close>

theorem normalize_output_order:
  "normalize nouns keys s inkeys restr fmt =
     (case process_entries nouns keys fmt inkeys restr (snd (split_input fmt (strip s))) of
        Inl e \<Rightarrow> Inl e
      | Inr (recs, keys') \<Rightarrow>
          Inr ((if filter parsing_failed recs \<noteq> []
                then join (nl @ nl) (map (\<lambda>r. (if fmt then str ''@'' else []) @ raw_entry r)
                       (filter parsing_failed recs)) @ nl @ nl
                else [])
               @ (if fst (split_input fmt (strip s)) \<noteq> [] then fst (split_input fmt (strip s)) @ nl @ nl else [])
               @ join (nl @ nl) (filter (\<lambda>t. t \<noteq> [])
                    (map bibtex (sort_records (filter (\<lambda>r. \<not> parsing_failed r) recs)))),
               keys'))
   \<and> mset (sort_records rs) = mset rs
   \<and> sorted_wrt (\<lambda>a b. rtyp b < rtyp a \<or> (rtyp a = rtyp b \<and> key_str a \<le> key_str b)) (sort_records rs)"
proof -
  have eq: "normalize nouns keys s inkeys restr fmt =
     (case process_entries nouns keys fmt inkeys restr (snd (split_input fmt (strip s))) of
        Inl e \<Rightarrow> Inl e
      | Inr (recs, keys') \<Rightarrow> Inr (render fmt (fst (split_input fmt (strip s))) recs, keys'))"
    by (simp add: normalize_def case_prod_unfold Let_def)
  show ?thesis
    unfolding eq render_layout
    by (intro conjI refl sort_records_mset sort_records_sorted)
qed

end
